theory Spec2Isabelle
  imports Main "HOL-Library.Word"
begin

unbundle bit_operations_syntax

section \<open>Flow union types: createFlowUnionType\<close>

text \<open>
  Flow type annotation nodes. Only the shape the union builder looks at is kept: a union
  node holds the list of its member types, every other annotation is a leaf that is
  compared structurally (by its tag and its text).
\<close>

datatype flowType =
    AnyTypeAnnotation
  | StringTypeAnnotation
  | NumberTypeAnnotation
  | GenericTypeAnnotation string
  | UnionTypeAnnotation "flowType list"

text \<open>
  Modelled from the spec: \<^verbatim>\<open>removeTypeDuplicates\<close>
  (modifications/flow/removeTypeDuplicates.ts is not among the sources). The spec says it
  "flattens and removes duplicate members (structural/textual equality)": nested unions
  are opened, then every member is kept once, at its first position.
\<close>

fun flattenType :: "flowType \<Rightarrow> flowType list" where
  "flattenType (UnionTypeAnnotation ts) = concat (map flattenType ts)"
| "flattenType t = [t]"

definition removeTypeDuplicates :: "flowType list \<Rightarrow> flowType list" where
  "removeTypeDuplicates nodes = rev (remdups (rev (concat (map flattenType nodes))))"

text \<open>
  \<^verbatim>\<open>
  const flattened = removeTypeDuplicates(types);
  if (flattened.length === 1) { return flattened[0] as T; }
  else { return unionTypeAnnotation(flattened); }
  \<close>
\<close>

definition createFlowUnionType :: "flowType list \<Rightarrow> flowType" where
  "createFlowUnionType types =
     (let flattened = removeTypeDuplicates types in
      if length flattened = 1 then flattened ! 0
      else UnionTypeAnnotation flattened)"

fun isUnionTypeAnnotation :: "flowType \<Rightarrow> bool" where
  "isUnionTypeAnnotation (UnionTypeAnnotation ts) = True"
| "isUnionTypeAnnotation t = False"

section \<open>Node validation: validate, validateField, validateChild\<close>

text \<open>
  A node carries its type tag. The value stored in a field is any JavaScript value: null,
  undefined, a node, or something that is not a node (a primitive or an array), whose
  \<^verbatim>\<open>type\<close> property is undefined.
\<close>

record node =
  ntype :: string

datatype jsvalue =
    JSNull
  | JSUndefined
  | JSNode node
  | JSPrimitive string
  | JSArray "jsvalue list"

text \<open>\<^verbatim>\<open>val == null\<close> holds for null and for undefined.\<close>

fun isNullish :: "jsvalue \<Rightarrow> bool" where
  "isNullish JSNull = True"
| "isNullish JSUndefined = True"
| "isNullish v = False"

text \<open>\<^verbatim>\<open>val.type\<close>, for a value that is not null: undefined unless the value is a node.\<close>

fun typeOfValue :: "jsvalue \<Rightarrow> string option" where
  "typeOfValue (JSNode n) = Some (ntype n)"
| "typeOfValue v = None"

text \<open>
  A validator either returns or throws; the thrown error is the value \<open>Some e\<close>.
  \<^verbatim>\<open>FieldOptions\<close> has an optional \<^verbatim>\<open>validate\<close> and an optional
  flag \<^verbatim>\<open>optional\<close>. The tables \<^verbatim>\<open>NODE_FIELDS\<close> and
  \<^verbatim>\<open>NODE_PARENT_VALIDATIONS\<close> are declared in ../definitions, which is not
  among the sources: they are parameters of the model.
\<close>

type_synonym validator = "node \<Rightarrow> string \<Rightarrow> jsvalue \<Rightarrow> string option"

record fieldOptions =
  fo_validate :: "validator option"
  fo_optional :: bool

type_synonym node_fields = "string \<rightharpoonup> (string \<rightharpoonup> fieldOptions)"
type_synonym node_parent_validations = "string \<rightharpoonup> validator"

text \<open>
  What a call did: the validators it invoked, in order, and the error it threw, if any.
\<close>

datatype validator_call =
    FieldValidatorCall string
  | ParentValidatorCall string

type_synonym validation = "validator_call list \<times> string option"

text \<open>
  \<^verbatim>\<open>
  if (!field?.validate) return;
  if (field.optional && val == null) return;
  field.validate(node, key, val);
  \<close>
\<close>

definition validateField ::
  "node \<Rightarrow> string \<Rightarrow> jsvalue \<Rightarrow> fieldOptions option \<Rightarrow> validation" where
  "validateField nd key val field =
     (case field of
        None \<Rightarrow> ([], None)
      | Some f \<Rightarrow>
          (case fo_validate f of
             None \<Rightarrow> ([], None)
           | Some v \<Rightarrow>
               if fo_optional f \<and> isNullish val then ([], None)
               else ([FieldValidatorCall key], v nd key val)))"

text \<open>
  \<^verbatim>\<open>
  if (val == null) return;
  const validate = NODE_PARENT_VALIDATIONS[val.type];
  if (!validate) return;
  validate(node, key, val);
  \<close>
\<close>

definition validateChild ::
  "node_parent_validations \<Rightarrow> node \<Rightarrow> string \<Rightarrow> jsvalue \<Rightarrow> validation" where
  "validateChild parentValidations nd key val =
     (if isNullish val then ([], None)
      else
        (case typeOfValue val of
           None \<Rightarrow> ([], None)
         | Some ty \<Rightarrow>
             (case parentValidations ty of
                None \<Rightarrow> ([], None)
              | Some v \<Rightarrow> ([ParentValidatorCall ty], v nd key val))))"

text \<open>
  \<^verbatim>\<open>
  if (!node) return;
  const fields = NODE_FIELDS[node.type];
  if (!fields) return;
  const field = fields[key];
  validateField(node, key, val, field);
  validateChild(node, key, val);
  \<close>
  An error thrown by the field's validator ends the call: the child is not validated.
\<close>

definition validate ::
  "node_fields \<Rightarrow> node_parent_validations \<Rightarrow> node option \<Rightarrow> string \<Rightarrow> jsvalue
   \<Rightarrow> validation" where
  "validate nodeFields parentValidations nd key val =
     (case nd of
        None \<Rightarrow> ([], None)
      | Some n \<Rightarrow>
          (case nodeFields (ntype n) of
             None \<Rightarrow> ([], None)
           | Some flds \<Rightarrow>
               (case validateField n key val (flds key) of
                  (calls, Some e) \<Rightarrow> (calls, Some e)
                | (calls, None) \<Rightarrow>
                    (case validateChild parentValidations n key val of
                       (calls', r) \<Rightarrow> (calls @ calls', r)))))"

text \<open>Tables and validators used to run the model on concrete inputs.\<close>

definition rejectAll :: validator where
  "rejectAll nd key val = Some ''invalid''"

definition acceptAll :: validator where
  "acceptAll nd key val = None"

definition exampleNodeFields :: node_fields where
  "exampleNodeFields =
     [''ExpressionStatement'' \<mapsto>
        [''expression'' \<mapsto> \<lparr>fo_validate = Some acceptAll, fo_optional = False\<rparr>,
         ''extra'' \<mapsto> \<lparr>fo_validate = Some rejectAll, fo_optional = True\<rparr>]]"

definition exampleParentValidations :: node_parent_validations where
  "exampleParentValidations = [''MetaProperty'' \<mapsto> rejectAll]"

section \<open>Environment preset: the module plugins\<close>

text \<open>
  The \<^verbatim>\<open>modules\<close> option is \<^verbatim>\<open>false\<close> (here \<open>None\<close>) or the name of a
  module format. The table \<^verbatim>\<open>moduleTransformations\<close> (./module-transformations is
  not among the sources) maps a format to the name of its transform plugin; it is a
  parameter. A lookup is truthy when the entry exists and is not the empty string.
\<close>

type_synonym moduleOption = "string option"
type_synonym moduleTransformationsType = "string \<rightharpoonup> string"

definition truthyString :: "string option \<Rightarrow> bool" where
  "truthyString v = (case v of None \<Rightarrow> False | Some s \<Rightarrow> s \<noteq> [])"

definition dynamicImportWarning :: string where
  "dynamicImportWarning =
     ''Dynamic import can only be supported when transforming ES modules'' @
     '' to AMD, CommonJS or SystemJS. Only the parser plugin will be enabled.''"

text \<open>
  \<^verbatim>\<open>getModulesPluginNames\<close>: the plugin names pushed, in order, and the
  messages written with \<^verbatim>\<open>console.warn\<close>.
  \<^verbatim>\<open>
  if (modules !== false && transformations[modules]) {
    if (shouldTransformESM) modulesPluginNames.push(transformations[modules]);
    if (shouldTransformDynamicImport && shouldTransformESM && modules !== "umd") {
      modulesPluginNames.push("transform-dynamic-import");
    } else {
      if (shouldTransformDynamicImport) console.warn(...);
      modulesPluginNames.push("syntax-dynamic-import");
    }
  } else {
    modulesPluginNames.push("syntax-dynamic-import");
  }
  if (shouldTransformExportNamespaceFrom) push("transform-export-namespace-from");
  else push("syntax-export-namespace-from");
  if (shouldParseTopLevelAwait) push("syntax-top-level-await");
  push("syntax-import-meta");
  \<close>
\<close>

definition dynamicImportPluginNames ::
  "moduleOption \<Rightarrow> moduleTransformationsType \<Rightarrow> bool \<Rightarrow> bool \<Rightarrow> string list \<times> string list" where
  "dynamicImportPluginNames modules transformations shouldTransformESM
       shouldTransformDynamicImport =
     (case modules of
        None \<Rightarrow> ([''syntax-dynamic-import''], [])
      | Some m \<Rightarrow>
          if truthyString (transformations m) then
            (let names1 = (if shouldTransformESM then [the (transformations m)] else [])
             in if shouldTransformDynamicImport \<and> shouldTransformESM \<and> m \<noteq> ''umd''
                then (names1 @ [''transform-dynamic-import''], [])
                else (names1 @ [''syntax-dynamic-import''],
                      if shouldTransformDynamicImport then [dynamicImportWarning] else []))
          else ([''syntax-dynamic-import''], []))"

definition getModulesPluginNames ::
  "moduleOption \<Rightarrow> moduleTransformationsType \<Rightarrow> bool \<Rightarrow> bool \<Rightarrow> bool \<Rightarrow> bool
   \<Rightarrow> string list \<times> string list" where
  "getModulesPluginNames modules transformations shouldTransformESM
       shouldTransformDynamicImport shouldTransformExportNamespaceFrom
       shouldParseTopLevelAwait =
     (case dynamicImportPluginNames modules transformations shouldTransformESM
             shouldTransformDynamicImport of
        (names, warnings) \<Rightarrow>
          (names
           @ (if shouldTransformExportNamespaceFrom
              then [''transform-export-namespace-from'']
              else [''syntax-export-namespace-from''])
           @ (if shouldParseTopLevelAwait then [''syntax-top-level-await''] else [])
           @ [''syntax-import-meta''],
           warnings))"

text \<open>
  The caller of the preset. \<^verbatim>\<open>api.caller\<close> may be missing (\<open>None\<close>); when it is
  there it hands the caller's metadata, which may be undefined, to the callback. The
  callbacks \<^verbatim>\<open>supportsStaticESM\<close>, ... read one flag: \<^verbatim>\<open>!!caller?.flag\<close>.
\<close>

record callerMetadata =
  supportsStaticESM :: bool
  supportsDynamicImport :: bool
  supportsExportNamespaceFrom :: bool
  supportsTopLevelAwait :: bool

type_synonym apiCaller = "callerMetadata option option"

text \<open>\<^verbatim>\<open>api.caller?.(cb)\<close>, as a truth value.\<close>

definition callerSupports :: "apiCaller \<Rightarrow> (callerMetadata \<Rightarrow> bool) \<Rightarrow> bool" where
  "callerSupports apiCaller flag =
     (case apiCaller of
        None \<Rightarrow> False
      | Some caller \<Rightarrow> (case caller of None \<Rightarrow> False | Some c \<Rightarrow> flag c))"

text \<open>
  The preset's call of \<^verbatim>\<open>getModulesPluginNames\<close>. Whether
  transform-export-namespace-from is required is decided by \<^verbatim>\<open>isRequired\<close> on the
  targets; here it is the parameter \<open>exportNamespaceFromRequired\<close>.
  \<^verbatim>\<open>
  shouldTransformESM: modules !== "auto" || !api.caller?.(supportsStaticESM),
  shouldTransformDynamicImport: modules !== "auto" || !api.caller?.(supportsDynamicImport),
  shouldTransformExportNamespaceFrom: !shouldSkipExportNamespaceFrom,
  shouldParseTopLevelAwait: !api.caller || api.caller(supportsTopLevelAwait),
  \<close>
\<close>

definition presetShouldTransformESM :: "moduleOption \<Rightarrow> apiCaller \<Rightarrow> bool" where
  "presetShouldTransformESM modules apiCaller =
     (modules \<noteq> Some ''auto'' \<or> \<not> callerSupports apiCaller supportsStaticESM)"

definition presetShouldTransformDynamicImport :: "moduleOption \<Rightarrow> apiCaller \<Rightarrow> bool" where
  "presetShouldTransformDynamicImport modules apiCaller =
     (modules \<noteq> Some ''auto'' \<or> \<not> callerSupports apiCaller supportsDynamicImport)"

definition presetShouldSkipExportNamespaceFrom ::
  "moduleOption \<Rightarrow> apiCaller \<Rightarrow> bool \<Rightarrow> bool" where
  "presetShouldSkipExportNamespaceFrom modules apiCaller exportNamespaceFromRequired =
     ((modules = Some ''auto'' \<and> callerSupports apiCaller supportsExportNamespaceFrom)
      \<or> (modules = None \<and> \<not> exportNamespaceFromRequired))"

definition presetModulesPluginNames ::
  "moduleOption \<Rightarrow> moduleTransformationsType \<Rightarrow> apiCaller \<Rightarrow> bool
   \<Rightarrow> string list \<times> string list" where
  "presetModulesPluginNames modules transformations apiCaller exportNamespaceFromRequired =
     getModulesPluginNames modules transformations
       (presetShouldTransformESM modules apiCaller)
       (presetShouldTransformDynamicImport modules apiCaller)
       (\<not> presetShouldSkipExportNamespaceFrom modules apiCaller exportNamespaceFromRequired)
       (apiCaller = None \<or> callerSupports apiCaller supportsTopLevelAwait)"

text \<open>A table with the formats the claims are run on.\<close>

definition exampleTransformations :: moduleTransformationsType where
  "exampleTransformations =
     [''auto'' \<mapsto> ''transform-modules-commonjs'',
      ''commonjs'' \<mapsto> ''transform-modules-commonjs'',
      ''umd'' \<mapsto> ''transform-modules-umd'']"

section \<open>The printer: tokens, spaces and newlines\<close>

text \<open>
  Character codes are natural numbers; \<^verbatim>\<open>str.charCodeAt(i)\<close> is \<open>None\<close> (NaN)
  outside the string. A name that starts with an underscore in the source starts with
  \<open>u_\<close> here.
\<close>

definition charCodeAt :: "string \<Rightarrow> int \<Rightarrow> nat option" where
  "charCodeAt str i =
     (if 0 \<le> i \<and> i < int (length str) then Some (of_char (str ! nat i)) else None)"

definition c_space :: nat where "c_space = 32"
definition c_lineFeed :: nat where "c_lineFeed = 10"
definition c_slash :: nat where "c_slash = 47"




text \<open>
  The formatting options the functions below read. \<^verbatim>\<open>compact\<close> is a boolean or
  "auto"; what is read is its truth value.
\<close>

record format =
  retainLines :: bool
  compact :: bool
  concise :: bool

text \<open>
  The printer's fields that the functions below read or write; \<open>'b\<close> is the buffer
  (\<^verbatim>\<open>this._buf\<close>). The record is extensible: the fields of the source that are left
  out live in its extension.
\<close>

record 'b printer =
  format :: format
  u_buf :: 'b
  u_indent :: int
  u_indentChar :: "nat option"
  u_indentRepeat :: int
  u_noLineTerminator :: bool
  u_endsWithInteger :: bool
  u_endsWithWord :: bool
  u_endsWithInnerRaw :: bool
  u_indentInnerComments :: bool

text \<open>
  What the functions below call and is not modelled: the class \<^verbatim>\<open>Buffer\<close>
  (./buffer is not among the sources), the comment printer
  (\<^verbatim>\<open>printInnerComments\<close>, \<^verbatim>\<open>_maybeAddAuxComment\<close>), the latch of
  terminatorless constructs (\<^verbatim>\<open>_maybeAddParen\<close>, \<^verbatim>\<open>_maybeAddParenChar\<close>, which may
  print an opening parenthesis) and \<^verbatim>\<open>Number.isInteger(+str)\<close>, which converts to a
  floating point number. They are parameters: every theorem holds whatever they do.
\<close>

record ('b, 'z) printerEnv =
  buf_getLastChar :: "'b \<Rightarrow> nat"
  buf_hasContent :: "'b \<Rightarrow> bool"
  buf_getNewlineCount :: "'b \<Rightarrow> nat"
  buf_queue :: "nat \<Rightarrow> 'b \<Rightarrow> 'b"
  buf_queueIndentation :: "nat option \<Rightarrow> int \<Rightarrow> 'b \<Rightarrow> 'b"
  buf_append :: "string \<Rightarrow> bool \<Rightarrow> 'b \<Rightarrow> 'b"
  buf_appendChar :: "nat \<Rightarrow> 'b \<Rightarrow> 'b"
  printInnerComments :: "('b, 'z) printer_scheme \<Rightarrow> ('b, 'z) printer_scheme"
  u_maybeAddAuxComment :: "('b, 'z) printer_scheme \<Rightarrow> ('b, 'z) printer_scheme"
  u_maybeAddParen :: "string \<Rightarrow> ('b, 'z) printer_scheme \<Rightarrow> ('b, 'z) printer_scheme"
  u_maybeAddParenChar :: "nat \<Rightarrow> ('b, 'z) printer_scheme \<Rightarrow> ('b, 'z) printer_scheme"
  numberIsInteger :: "string \<Rightarrow> bool"

definition getLastChar :: "('b, 'z) printerEnv \<Rightarrow> ('b, 'z) printer_scheme \<Rightarrow> nat" where
  "getLastChar E p = buf_getLastChar E (u_buf p)"

definition endsWith :: "('b, 'z) printerEnv \<Rightarrow> nat \<Rightarrow> ('b, 'z) printer_scheme \<Rightarrow> bool" where
  "endsWith E char p = (getLastChar E p = char)"

definition u_getIndent :: "('b, 'z) printer_scheme \<Rightarrow> int" where
  "u_getIndent p = u_indentRepeat p * u_indent p"

text \<open>
  \<^verbatim>\<open>
  if (this._indent && firstChar !== charCodes.lineFeed && this.endsWith(charCodes.lineFeed))
    this._buf.queueIndentation(this._indentChar, this._getIndent());
  \<close>
\<close>

definition u_maybeIndent ::
  "('b, 'z) printerEnv \<Rightarrow> nat option \<Rightarrow> ('b, 'z) printer_scheme \<Rightarrow> ('b, 'z) printer_scheme" where
  "u_maybeIndent E firstChar p =
     (if u_indent p \<noteq> 0 \<and> firstChar \<noteq> Some c_lineFeed \<and> endsWith E c_lineFeed p
      then p\<lparr>u_buf := buf_queueIndentation E (u_indentChar p) (u_getIndent p) (u_buf p)\<rparr>
      else p)"

text \<open>
  \<^verbatim>\<open>
  _queue(char) {
    this._maybeAddParenChar(char);
    this._maybeIndent(char);
    this._buf.queue(char);
    this._endsWithWord = false;
    this._endsWithInteger = false;
  }
  \<close>
\<close>

definition u_queue ::
  "('b, 'z) printerEnv \<Rightarrow> nat \<Rightarrow> ('b, 'z) printer_scheme \<Rightarrow> ('b, 'z) printer_scheme" where
  "u_queue E char p =
     (let p1 = u_maybeAddParenChar E char p;
          p2 = u_maybeIndent E (Some char) p1;
          p3 = p2\<lparr>u_buf := buf_queue E char (u_buf p2)\<rparr>
      in p3\<lparr>u_endsWithWord := False, u_endsWithInteger := False\<rparr>)"

definition u_space :: "('b, 'z) printerEnv \<Rightarrow> ('b, 'z) printer_scheme \<Rightarrow> ('b, 'z) printer_scheme" where
  "u_space E p = u_queue E c_space p"

definition u_newline :: "('b, 'z) printerEnv \<Rightarrow> ('b, 'z) printer_scheme \<Rightarrow> ('b, 'z) printer_scheme" where
  "u_newline E p = u_queue E c_lineFeed p"

definition u_append ::
  "('b, 'z) printerEnv \<Rightarrow> string \<Rightarrow> bool \<Rightarrow> ('b, 'z) printer_scheme \<Rightarrow> ('b, 'z) printer_scheme" where
  "u_append E str maybeNewline p =
     (let p1 = u_maybeAddParen E str p;
          p2 = u_maybeIndent E (charCodeAt str 0) p1;
          p3 = p2\<lparr>u_buf := buf_append E str maybeNewline (u_buf p2)\<rparr>
      in p3\<lparr>u_endsWithWord := False, u_endsWithInteger := False\<rparr>)"


text \<open>
  \<^verbatim>\<open>
  _maybePrintInnerComments() {
    if (this._endsWithInnerRaw) this.printInnerComments();
    this._endsWithInnerRaw = true;
    this._indentInnerComments = true;
  }
  \<close>
\<close>

definition u_maybePrintInnerComments ::
  "('b, 'z) printerEnv \<Rightarrow> ('b, 'z) printer_scheme \<Rightarrow> ('b, 'z) printer_scheme" where
  "u_maybePrintInnerComments E p =
     (let p1 = (if u_endsWithInnerRaw p then printInnerComments E p else p)
      in p1\<lparr>u_endsWithInnerRaw := True, u_indentInnerComments := True\<rparr>)"

text \<open>
  \<^verbatim>\<open>
  space(force = false) {
    if (this.format.compact) return;
    if (force) { this._space(); }
    else if (this._buf.hasContent()) {
      const lastCp = this.getLastChar();
      if (lastCp !== charCodes.space && lastCp !== charCodes.lineFeed) this._space();
    }
  }
  \<close>
\<close>

definition space ::
  "('b, 'z) printerEnv \<Rightarrow> bool \<Rightarrow> ('b, 'z) printer_scheme \<Rightarrow> ('b, 'z) printer_scheme" where
  "space E force p =
     (if compact (format p) then p
      else if force then u_space E p
      else if buf_hasContent E (u_buf p) then
        (let lastCp = getLastChar E p
         in if lastCp \<noteq> c_space \<and> lastCp \<noteq> c_lineFeed then u_space E p else p)
      else p)"

text \<open>
  The conditions under which \<^verbatim>\<open>word\<close>, \<^verbatim>\<open>token\<close> and \<^verbatim>\<open>tokenChar\<close> call
  \<^verbatim>\<open>this._space()\<close>, read in the state left by \<^verbatim>\<open>_maybePrintInnerComments\<close>.
  \<^verbatim>\<open>
  // word
  this._endsWithWord ||
  (str.charCodeAt(0) === charCodes.slash && this.endsWith(charCodes.slash))
  // token
  (lastChar === charCodes.exclamationMark &&
    (str === "--" || strFirst === charCodes.equalsTo)) ||
  (strFirst === charCodes.plusSign && lastChar === charCodes.plusSign) ||
  (strFirst === charCodes.dash && lastChar === charCodes.dash) ||
  (strFirst === charCodes.dot && this._endsWithInteger)
  // tokenChar
  (char === charCodes.plusSign && lastChar === charCodes.plusSign) ||
  (char === charCodes.dash && lastChar === charCodes.dash) ||
  (char === charCodes.dot && this._endsWithInteger)
  \<close>
\<close>

definition wordNeedsSpace ::
  "('b, 'z) printerEnv \<Rightarrow> string \<Rightarrow> ('b, 'z) printer_scheme \<Rightarrow> bool" where
  "wordNeedsSpace E str p =
     (u_endsWithWord p \<or> (charCodeAt str 0 = Some c_slash \<and> endsWith E c_slash p))"



text \<open>
  \<^verbatim>\<open>
  word(str, noLineTerminatorAfter = false) {
    this._maybePrintInnerComments();
    if (...) this._space();
    this._maybeAddAuxComment();
    this._append(str, false);
    this._endsWithWord = true;
    this._noLineTerminator = noLineTerminatorAfter;
  }
  \<close>
\<close>

definition word ::
  "('b, 'z) printerEnv \<Rightarrow> string \<Rightarrow> bool \<Rightarrow> ('b, 'z) printer_scheme \<Rightarrow> ('b, 'z) printer_scheme" where
  "word E str noLineTerminatorAfter p =
     (let p1 = u_maybePrintInnerComments E p;
          p2 = (if wordNeedsSpace E str p1 then u_space E p1 else p1);
          p3 = u_maybeAddAuxComment E p2;
          p4 = u_append E str False p3
      in p4\<lparr>u_endsWithWord := True, u_noLineTerminator := noLineTerminatorAfter\<rparr>)"





text \<open>
  \<^verbatim>\<open>
  newline(i = 1, force) {
    if (i <= 0) return;
    if (!force) {
      if (this.format.retainLines || this.format.compact) return;
      if (this.format.concise) { this.space(); return; }
    }
    if (i > 2) i = 2; // Max two lines
    i -= this._buf.getNewlineCount();
    for (let j = 0; j < i; j++) this._newline();
  }
  \<close>
  The loop runs \<open>i\<close> times when \<open>i\<close> is positive and not at all otherwise.
\<close>

definition newline ::
  "('b, 'z) printerEnv \<Rightarrow> int \<Rightarrow> bool \<Rightarrow> ('b, 'z) printer_scheme \<Rightarrow> ('b, 'z) printer_scheme" where
  "newline E i force p =
     (if i \<le> 0 then p
      else if \<not> force \<and> (retainLines (format p) \<or> compact (format p)) then p
      else if \<not> force \<and> concise (format p) then space E False p
      else
        (let i1 = (if i > 2 then 2 else i);
             i2 = i1 - int (buf_getNewlineCount E (u_buf p))
         in (u_newline E ^^ nat i2) p))"

text \<open>
  A buffer to run the model on: the character codes written so far, queued or appended,
  with no comments to print and no latch set.
\<close>

definition plainEnv :: "(nat list, unit) printerEnv" where
  "plainEnv =
     \<lparr>buf_getLastChar = (\<lambda>b. if b = [] then 0 else last b),
      buf_hasContent = (\<lambda>b. b \<noteq> []),
      buf_getNewlineCount = (\<lambda>b. length (takeWhile (\<lambda>c. c = c_lineFeed) (rev b))),
      buf_queue = (\<lambda>c b. b @ [c]),
      buf_queueIndentation = (\<lambda>c n b. b @ replicate (nat n) (case c of None \<Rightarrow> 0 | Some k \<Rightarrow> k)),
      buf_append = (\<lambda>str maybeNewline b. b @ map of_char str),
      buf_appendChar = (\<lambda>c b. b @ [c]),
      printInnerComments = (\<lambda>p. p),
      u_maybeAddAuxComment = (\<lambda>p. p),
      u_maybeAddParen = (\<lambda>str p. p),
      u_maybeAddParenChar = (\<lambda>c p. p),
      numberIsInteger = (\<lambda>str. str \<noteq> [] \<and> list_all (\<lambda>c. 48 \<le> (of_char c :: nat) \<and> (of_char c :: nat) \<le> 57) str)\<rparr>"

definition printerWith :: "format \<Rightarrow> nat list \<Rightarrow> nat list printer" where
  "printerWith f b =
     \<lparr>format = f, u_buf = b, u_indent = 0, u_indentChar = Some c_space, u_indentRepeat = 2,
      u_noLineTerminator = False, u_endsWithInteger = False, u_endsWithWord = False,
      u_endsWithInnerRaw = False, u_indentInnerComments = True\<rparr>"

definition defaultFormat :: format where
  "defaultFormat = \<lparr>retainLines = False, compact = False, concise = False\<rparr>"

definition conciseFormat :: format where
  "conciseFormat = \<lparr>retainLines = False, compact = False, concise = True\<rparr>"

section \<open>The adjacency cases of the token rules, in words\<close>












section \<open>Runtime helpers: hasMinVersion\<close>

text \<open>
  \<^verbatim>\<open>semver.valid\<close> and \<^verbatim>\<open>semver.intersects\<close> belong to a library outside the
  repository; they are parameters of \<open>hasMinVersion\<close>. \<open>intersects\<close> throws on a
  string that is not a range: its result is \<open>None\<close> then. The runtime version is a
  string or undefined (\<open>None\<close>); \<^verbatim>\<open>!runtimeVersion\<close> holds for undefined and for the
  empty string.
  \<^verbatim>\<open>
  if (!runtimeVersion) return true;
  if (semver.valid(runtimeVersion)) runtimeVersion = `^${runtimeVersion}`;
  return (
    !semver.intersects(`<${minVersion}`, runtimeVersion) &&
    !semver.intersects(`>=8.0.0`, runtimeVersion)
  );
  \<close>
\<close>

definition falsy :: "string option \<Rightarrow> bool" where
  "falsy v = (case v of None \<Rightarrow> True | Some s \<Rightarrow> s = [])"

definition normalizeRuntimeVersion :: "(string \<Rightarrow> bool) \<Rightarrow> string \<Rightarrow> string" where
  "normalizeRuntimeVersion valid runtimeVersion =
     (if valid runtimeVersion then ''^'' @ runtimeVersion else runtimeVersion)"

definition hasMinVersion ::
  "(string \<Rightarrow> bool) \<Rightarrow> (string \<Rightarrow> string \<Rightarrow> bool option) \<Rightarrow> string \<Rightarrow> string option
   \<Rightarrow> bool option" where
  "hasMinVersion valid intersects minVersion runtimeVersion =
     (if falsy runtimeVersion then Some True
      else
        (let range = normalizeRuntimeVersion valid (the runtimeVersion)
         in case intersects (''<'' @ minVersion) range of
              None \<Rightarrow> None
            | Some True \<Rightarrow> Some False
            | Some False \<Rightarrow>
                (case intersects ''>=8.0.0'' range of
                   None \<Rightarrow> None
                 | Some b \<Rightarrow> Some (\<not> b))))"

text \<open>
  Modelled from the spec: the semver library, for the versions and ranges of the
  examples. A version is \<open>major.minor.patch\<close>, three numbers without leading zeros; a
  range is \<open><v\<close> ("less than"), \<open>>=v\<close> or the caret range \<open>^v\<close> (from \<open>v\<close> up to the
  next breaking version). Two ranges intersect when each comparator of one meets each
  comparator of the other. Anything else is outside the model: not valid as a version,
  \<open>None\<close> as a range.
\<close>

type_synonym version = "nat \<times> nat \<times> nat"

definition isDigit :: "char \<Rightarrow> bool" where
  "isDigit c = (48 \<le> (of_char c :: nat) \<and> (of_char c :: nat) \<le> 57)"

definition parseNumeric :: "string \<Rightarrow> nat option" where
  "parseNumeric s =
     (if s = [] \<or> \<not> list_all isDigit s \<or> (length s > 1 \<and> hd s = CHR ''0'') then None
      else Some (foldl (\<lambda>n c. 10 * n + (of_char c - 48)) 0 s))"

fun splitOn :: "char \<Rightarrow> string \<Rightarrow> string list" where
  "splitOn sep [] = [[]]"
| "splitOn sep (c # cs) =
     (if c = sep then [] # splitOn sep cs
      else (case splitOn sep cs of
              [] \<Rightarrow> [[c]]
            | part # parts \<Rightarrow> (c # part) # parts))"

definition parseVersion :: "string \<Rightarrow> version option" where
  "parseVersion s =
     (case map parseNumeric (splitOn (CHR ''.'') s) of
        [Some major, Some minor, Some patch] \<Rightarrow> Some (major, minor, patch)
      | _ \<Rightarrow> None)"

definition semverValid :: "string \<Rightarrow> bool" where
  "semverValid s = (parseVersion s \<noteq> None)"

fun versionLess :: "version \<Rightarrow> version \<Rightarrow> bool" where
  "versionLess (a, b, c) (d, e, f) =
     (a < d \<or> (a = d \<and> (b < e \<or> (b = e \<and> c < f))))"

datatype comparatorOp = OpLess | OpGreaterEq

type_synonym comparator = "comparatorOp \<times> version"

fun caretUpper :: "version \<Rightarrow> version" where
  "caretUpper (major, minor, patch) =
     (if major > 0 then (major + 1, 0, 0)
      else if minor > 0 then (0, minor + 1, 0)
      else (0, 0, patch + 1))"

definition parseRange :: "string \<Rightarrow> comparator list option" where
  "parseRange r =
     (case r of
        CHR ''<'' # v \<Rightarrow> map_option (\<lambda>x. [(OpLess, x)]) (parseVersion v)
      | CHR ''>'' # CHR ''='' # v \<Rightarrow> map_option (\<lambda>x. [(OpGreaterEq, x)]) (parseVersion v)
      | CHR ''^'' # v \<Rightarrow>
          map_option (\<lambda>x. [(OpGreaterEq, x), (OpLess, caretUpper x)]) (parseVersion v)
      | _ \<Rightarrow> None)"

fun comparatorIntersects :: "comparator \<Rightarrow> comparator \<Rightarrow> bool" where
  "comparatorIntersects (OpLess, v) (OpLess, w) = True"
| "comparatorIntersects (OpGreaterEq, v) (OpGreaterEq, w) = True"
| "comparatorIntersects (OpGreaterEq, v) (OpLess, w) = versionLess v w"
| "comparatorIntersects (OpLess, v) (OpGreaterEq, w) = versionLess w v"

definition semverIntersects :: "string \<Rightarrow> string \<Rightarrow> bool option" where
  "semverIntersects r1 r2 =
     (case (parseRange r1, parseRange r2) of
        (Some cs1, Some cs2) \<Rightarrow>
          Some (list_all (\<lambda>c1. list_all (comparatorIntersects c1) cs2) cs1)
      | _ \<Rightarrow> None)"

section \<open>Class static blocks\<close>

text \<open>
  The syntax the transform reads and builds: statements and expressions, as far as the
  shape of a static block's body and of its replacement goes.
\<close>

datatype expression =
    Identifier string
  | OtherExpression nat
  | ArrowFunctionExpression "string list" "statement list"
  | CallExpression expression "expression list"
and statement =
    ExpressionStatement expression
  | OtherStatement nat

text \<open>
  The members of a class body. \<^verbatim>\<open>path.isPrivate()\<close> holds for a private property and
  a private method, whose name is \<^verbatim>\<open>key.id.name\<close>; \<^verbatim>\<open>path.isStaticBlock()\<close> for a
  static block. A private property has its name, its value, its decorators and its
  static flag, in the order of the builder \<^verbatim>\<open>t.classPrivateProperty\<close>.
\<close>

datatype classMember =
    ClassPrivateProperty string "expression option" "expression list" bool
  | ClassPrivateMethod string
  | StaticBlock "statement list"
  | OtherMember nat










text \<open>
  \<^verbatim>\<open>
  if (blockBody.length === 1 && t.isExpressionStatement(blockBody[0])) {
    replacement = t.inheritsComments(blockBody[0].expression, blockBody[0]);
  } else {
    replacement = template.expression.ast`(() => { ${blockBody} })()`;
  }
  \<close>
\<close>

fun replacement :: "statement list \<Rightarrow> expression" where
  "replacement [ExpressionStatement e] = e"
| "replacement blockBody = CallExpression (ArrowFunctionExpression [] blockBody) []"




text \<open>
  What the claim says of a member and what it has become: a static block is a static
  private property, without decorators, whose value is the replacement of the block's
  body; any other member is itself. \<open>generatedNames\<close> lists the names given to the
  static blocks, in order.
\<close>

fun becomes :: "classMember \<Rightarrow> classMember \<Rightarrow> bool" where
  "becomes (StaticBlock blockBody) m' =
     (\<exists>uid. m' = ClassPrivateProperty uid (Some (replacement blockBody)) [] True)"
| "becomes m m' = (m' = m)"




section \<open>Environment preset: the plugins required for the targets\<close>










section \<open>Node removal: remove and its helpers\<close>

text \<open>
  Nodes, paths, arrays and objects are mutable and shared, so they live in a store and
  are named by their addresses. A path (\<^verbatim>\<open>this\<close>) has the node it points at, the parent
  node, the container through which the node is reached (an array, or an object with
  the node in a field) and the key in it, its traversal flags (32-bit, as the bitwise
  operators of the source give) and the option \<^verbatim>\<open>opts.noScope\<close>.
\<close>

datatype containerRef = ArrayContainer nat | ObjectContainer nat

datatype pathKey = NumberKey int | StringKey string

record nodePath =
  path_node :: "nat option"
  path_parent :: "nat option"
  path_container :: "containerRef option"
  path_key :: pathKey
  path_traverseFlags :: "32 word"
  path_noScope :: bool

text \<open>
  The store: the paths, the arrays of nodes, the slots (fields) of the objects, and the path cache
  (\<^verbatim>\<open>pathCache\<close>: for a parent node, the map from its child nodes to their paths, in
  insertion order; a key of the inner map may be null). Scopes, bindings, comments and
  whatever else the helpers touch live in the extension of the record.
\<close>

record world =
  paths :: "nat \<Rightarrow> nodePath"
  arrays :: "nat \<Rightarrow> nat list"
  slots :: "nat \<Rightarrow> string \<Rightarrow> nat option"
  pathCache :: "nat \<Rightarrow> (nat option \<times> nat) list option"

datatype jsError =
    CodeFrameError string
  | TypeError string
  | ReferenceError string
  | OtherError string

text \<open>
  A method call changes the store and returns or throws: what was written before a throw
  stays written.
\<close>

type_synonym ('a, 'z) action = "'z world_scheme \<Rightarrow> (jsError + 'a) \<times> 'z world_scheme"

definition returns :: "'a \<Rightarrow> ('a, 'z) action" where
  "returns x s = (Inr x, s)"

definition throws :: "jsError \<Rightarrow> ('a, 'z) action" where
  "throws e s = (Inl e, s)"

definition andThen :: "('a, 'z) action \<Rightarrow> ('a \<Rightarrow> ('b, 'z) action) \<Rightarrow> ('b, 'z) action" where
  "andThen m f s = (case m s of (Inl e, s') \<Rightarrow> (Inl e, s') | (Inr x, s') \<Rightarrow> f x s')"

definition thenDo :: "(unit, 'z) action \<Rightarrow> ('b, 'z) action \<Rightarrow> ('b, 'z) action" where
  "thenDo m n = andThen m (\<lambda>u. n)"

definition modify :: "('z world_scheme \<Rightarrow> 'z world_scheme) \<Rightarrow> (unit, 'z) action" where
  "modify f s = (Inr (), f s)"

definition updatePath :: "nat \<Rightarrow> (nodePath \<Rightarrow> nodePath) \<Rightarrow> 'z world_scheme \<Rightarrow> 'z world_scheme" where
  "updatePath pid f s = s\<lparr>paths := (paths s)(pid := f (paths s pid))\<rparr>"

text \<open>
  What \<^verbatim>\<open>remove\<close> calls and is not among the sources: the flag constants of
  ./index, \<^verbatim>\<open>resync\<close>, \<^verbatim>\<open>getBindingIdentifiers\<close> (the names it returns),
  \<^verbatim>\<open>scope.removeBinding\<close>, the list \<^verbatim>\<open>hooks\<close> and
  \<^verbatim>\<open>shareCommentsWithSiblings\<close>. They are parameters.
\<close>

record 'z removalEnv =
  REMOVED :: "32 word"
  SHOULD_SKIP :: "32 word"
  resync :: "nat \<Rightarrow> (unit, 'z) action"
  getBindingIdentifiers :: "nat \<Rightarrow> 'z world_scheme \<Rightarrow> string list"
  scope_removeBinding :: "nat \<Rightarrow> string \<Rightarrow> (unit, 'z) action"
  hooks :: "(nat \<Rightarrow> (bool, 'z) action) list"
  shareCommentsWithSiblings :: "nat \<Rightarrow> (unit, 'z) action"

text \<open>
  Modelled from the spec: the getter \<^verbatim>\<open>removed\<close> of a path (./index is not among the
  sources). "A path can be marked removed": it is removed when the flag
  \<^verbatim>\<open>REMOVED\<close> is set in its traversal flags, the flag \<^verbatim>\<open>_markRemoved\<close> sets.
\<close>

definition removed :: "'z removalEnv \<Rightarrow> nat \<Rightarrow> 'z world_scheme \<Rightarrow> bool" where
  "removed E pid s = (path_traverseFlags (paths s pid) AND REMOVED E \<noteq> 0)"

text \<open>
  \<^verbatim>\<open>
  export function _assertUnremoved(this: NodePath) {
    if (this.removed) {
      throw this.buildCodeFrameError("NodePath has been removed so is read-only.");
    }
  }
  \<close>
\<close>

definition u_assertUnremoved :: "'z removalEnv \<Rightarrow> nat \<Rightarrow> (unit, 'z) action" where
  "u_assertUnremoved E pid s =
     (if removed E pid s
      then throws (CodeFrameError ''NodePath has been removed so is read-only.'') s
      else returns () s)"

text \<open>
  \<^verbatim>\<open>
  export function _removeFromScope(this: NodePath) {
    const bindings = this.getBindingIdentifiers();
    Object.keys(bindings).forEach(name => this.scope.removeBinding(name));
  }
  \<close>
\<close>

fun forEach :: "('a \<Rightarrow> (unit, 'z) action) \<Rightarrow> 'a list \<Rightarrow> (unit, 'z) action" where
  "forEach f [] = returns ()"
| "forEach f (x # xs) = thenDo (f x) (forEach f xs)"

definition u_removeFromScope :: "'z removalEnv \<Rightarrow> nat \<Rightarrow> (unit, 'z) action" where
  "u_removeFromScope E pid s =
     forEach (scope_removeBinding E pid) (getBindingIdentifiers E pid s) s"

text \<open>
  \<^verbatim>\<open>
  export function _callRemovalHooks(this: NodePath) {
    for (const fn of hooks) {
      if (fn(this, this.parentPath)) return true;
    }
  }
  \<close>
  The result is read as a truth value.
\<close>

fun callHooks :: "(nat \<Rightarrow> (bool, 'z) action) list \<Rightarrow> nat \<Rightarrow> (bool, 'z) action" where
  "callHooks [] pid = returns False"
| "callHooks (fn # fns) pid =
     andThen (fn pid) (\<lambda>handled. if handled then returns True else callHooks fns pid)"

definition u_callRemovalHooks :: "'z removalEnv \<Rightarrow> nat \<Rightarrow> (bool, 'z) action" where
  "u_callRemovalHooks E pid = callHooks (hooks E) pid"

text \<open>
  \<^verbatim>\<open>array.splice(start, 1)\<close>: a negative start counts from the end, a start beyond
  the end removes nothing.
\<close>

definition spliceOne :: "'a list \<Rightarrow> int \<Rightarrow> 'a list" where
  "spliceOne xs start =
     (let len = int (length xs);
          actualStart = (if start < 0 then max (len + start) 0 else min start len)
      in take (nat actualStart) xs @ drop (nat actualStart + 1) xs)"

text \<open>
  The cast \<^verbatim>\<open>this.key as number\<close>: the key of a path in an array is a number. For a
  string key JavaScript would convert; the model reads it as 0.
\<close>

fun keyAsNumber :: "pathKey \<Rightarrow> int" where
  "keyAsNumber (NumberKey k) = k"
| "keyAsNumber (StringKey name) = 0"

text \<open>
  Modelled from the spec: \<^verbatim>\<open>updateSiblingKeys(fromIndex, incrementBy)\<close> (./modification
  is not among the sources), "shifting sibling indices": nothing without a parent;
  otherwise every path cached under the parent that sits in the same container with a
  numeric key at or after \<open>fromIndex\<close> has its key moved by \<open>incrementBy\<close>.
\<close>

definition shiftKey :: "containerRef option \<Rightarrow> int \<Rightarrow> int \<Rightarrow> nodePath \<Rightarrow> nodePath" where
  "shiftKey cont fromIndex incrementBy p =
     (case path_key p of
        NumberKey k \<Rightarrow>
          if path_container p = cont \<and> k \<ge> fromIndex
          then p\<lparr>path_key := NumberKey (k + incrementBy)\<rparr> else p
      | StringKey name \<Rightarrow> p)"

definition cachedPaths :: "'z world_scheme \<Rightarrow> nat \<Rightarrow> nat list" where
  "cachedPaths s parent = (case pathCache s parent of None \<Rightarrow> [] | Some m \<Rightarrow> map snd m)"

definition updateSiblingKeys :: "nat \<Rightarrow> int \<Rightarrow> int \<Rightarrow> (unit, 'z) action" where
  "updateSiblingKeys pid fromIndex incrementBy s =
     (case path_parent (paths s pid) of
        None \<Rightarrow> returns () s
      | Some parent \<Rightarrow>
          returns ()
            (fold (\<lambda>q. updatePath q (shiftKey (path_container (paths s pid)) fromIndex incrementBy))
               (remdups (cachedPaths s parent)) s))"

text \<open>
  Modelled from the spec: \<^verbatim>\<open>_replaceWith(node)\<close> (./replacement is not among the
  sources), the "generic replace with empty path" when the node is null. It throws
  without a container; otherwise the path is cached under its new node instead of the
  old one ("paths are cached per (parent, node) pair"), and the slot of the container
  and \<^verbatim>\<open>this.node\<close> become the new node.
\<close>

definition cacheRekey ::
  "nat option \<Rightarrow> nat option \<Rightarrow> nat \<Rightarrow> (nat option \<times> nat) list \<Rightarrow> (nat option \<times> nat) list" where
  "cacheRekey oldNode newNode pid m =
     filter (\<lambda>entry. fst entry \<noteq> oldNode)
       (if newNode \<in> fst ` set m
        then map (\<lambda>entry. if fst entry = newNode then (newNode, pid) else entry) m
        else m @ [(newNode, pid)])"

definition writeSlot ::
  "containerRef \<Rightarrow> pathKey \<Rightarrow> nat option \<Rightarrow> 'z world_scheme \<Rightarrow> 'z world_scheme" where
  "writeSlot cont k v s =
     (case (cont, k) of
        (ObjectContainer obj, StringKey name) \<Rightarrow>
          s\<lparr>slots := (slots s)(obj := (slots s obj)(name := v))\<rparr>
      | _ \<Rightarrow> s)"

definition u_replaceWith :: "nat \<Rightarrow> nat option \<Rightarrow> (unit, 'z) action" where
  "u_replaceWith pid newNode s =
     (let p = paths s pid in
      case path_container p of
        None \<Rightarrow> throws (ReferenceError ''Container is falsy'') s
      | Some cont \<Rightarrow>
          (let s1 = (case path_parent p of
                       None \<Rightarrow> s
                     | Some parent \<Rightarrow>
                         (case pathCache s parent of
                            None \<Rightarrow> s
                          | Some m \<Rightarrow>
                              s\<lparr>pathCache := (pathCache s)
                                   (parent \<mapsto> cacheRekey (path_node p) newNode pid m)\<rparr>));
               s2 = writeSlot cont (path_key p) newNode s1
           in returns () (updatePath pid (\<lambda>q. q\<lparr>path_node := newNode\<rparr>) s2)))"

text \<open>
  \<^verbatim>\<open>
  export function _remove(this: NodePath) {
    if (Array.isArray(this.container)) {
      this.container.splice(this.key as number, 1);
      this.updateSiblingKeys(this.key as number, -1);
    } else {
      this._replaceWith(null);
    }
  }
  \<close>
\<close>

definition u_remove :: "nat \<Rightarrow> (unit, 'z) action" where
  "u_remove pid s =
     (let p = paths s pid in
      case path_container p of
        Some (ArrayContainer a) \<Rightarrow>
          thenDo
            (modify (\<lambda>s. s\<lparr>arrays := (arrays s)
                              (a := spliceOne (arrays s a) (keyAsNumber (path_key p)))\<rparr>))
            (updateSiblingKeys pid (keyAsNumber (path_key p)) (- 1)) s
      | _ \<Rightarrow> u_replaceWith pid None s)"

text \<open>
  \<^verbatim>\<open>
  export function _markRemoved(this: NodePath) {
    this._traverseFlags |= SHOULD_SKIP | REMOVED;
    if (this.parent) pathCache.get(this.parent).delete(this.node);
    this.node = null;
  }
  \<close>
  Without a cache for the parent, \<^verbatim>\<open>pathCache.get\<close> gives undefined and the call of
  \<^verbatim>\<open>delete\<close> throws.
\<close>

definition u_markRemoved :: "'z removalEnv \<Rightarrow> nat \<Rightarrow> (unit, 'z) action" where
  "u_markRemoved E pid s =
     (let s1 = updatePath pid
                 (\<lambda>p. p\<lparr>path_traverseFlags :=
                            path_traverseFlags p OR (SHOULD_SKIP E OR REMOVED E)\<rparr>) s;
          p = paths s1 pid
      in case path_parent p of
           None \<Rightarrow> returns () (updatePath pid (\<lambda>q. q\<lparr>path_node := None\<rparr>) s1)
         | Some parent \<Rightarrow>
             (case pathCache s1 parent of
                None \<Rightarrow>
                  throws (TypeError ''Cannot read properties of undefined (reading delete)'') s1
              | Some m \<Rightarrow>
                  returns ()
                    (updatePath pid (\<lambda>q. q\<lparr>path_node := None\<rparr>)
                       (s1\<lparr>pathCache := (pathCache s1)
                             (parent \<mapsto> filter (\<lambda>entry. fst entry \<noteq> path_node p) m)\<rparr>))))"

text \<open>
  \<^verbatim>\<open>
  export function remove(this: NodePath) {
    this._assertUnremoved();
    this.resync();
    if (!this.opts?.noScope) this._removeFromScope();
    if (this._callRemovalHooks()) {
      this._markRemoved();
      return;
    }
    this.shareCommentsWithSiblings();
    this._remove();
    this._markRemoved();
  }
  \<close>
\<close>

definition remove :: "'z removalEnv \<Rightarrow> nat \<Rightarrow> (unit, 'z) action" where
  "remove E pid =
     thenDo (u_assertUnremoved E pid)
    (thenDo (resync E pid)
    (thenDo (\<lambda>s. if \<not> path_noScope (paths s pid) then u_removeFromScope E pid s
                else returns () s)
    (andThen (u_callRemovalHooks E pid)
       (\<lambda>handled.
          if handled then u_markRemoved E pid
          else thenDo (shareCommentsWithSiblings E pid)
              (thenDo (u_remove pid) (u_markRemoved E pid))))))"

text \<open>
  Parameters to run the model on: the flags as two distinct bits, no bindings, no hooks,
  nothing to resynchronise and no comments.
\<close>

definition plainRemovalEnv :: "unit removalEnv" where
  "plainRemovalEnv =
     \<lparr>REMOVED = 1, SHOULD_SKIP = 4,
      resync = (\<lambda>pid. returns ()),
      getBindingIdentifiers = (\<lambda>pid s. []),
      scope_removeBinding = (\<lambda>pid name. returns ()),
      hooks = [],
      shareCommentsWithSiblings = (\<lambda>pid. returns ())\<rparr>"

text \<open>
  A block (node 10) whose body (array 10) holds the statements 11, 12, 13, with the paths
  11, 12, 13 pointing at them, and an expression statement (node 14) whose field
  \<^verbatim>\<open>expression\<close> holds node 15, path 15 pointing at it.
\<close>

definition statementPath :: "nat \<Rightarrow> int \<Rightarrow> nodePath" where
  "statementPath n k =
     \<lparr>path_node = Some n, path_parent = Some 10, path_container = Some (ArrayContainer 10),
      path_key = NumberKey k, path_traverseFlags = 0, path_noScope = False\<rparr>"

definition expressionPath :: nodePath where
  "expressionPath =
     \<lparr>path_node = Some 15, path_parent = Some 14, path_container = Some (ObjectContainer 14),
      path_key = StringKey ''expression'', path_traverseFlags = 0, path_noScope = False\<rparr>"

definition exampleWorld :: "unit world_scheme" where
  "exampleWorld =
     \<lparr>paths = (\<lambda>pid. if pid = 15 then expressionPath
                     else statementPath pid (int pid - 11)),
      arrays = (\<lambda>a. if a = 10 then [11, 12, 13] else []),
      slots = (\<lambda>obj name. if obj = 14 \<and> name = ''expression'' then Some 15 else None),
      pathCache = (\<lambda>parent. if parent = 10
                            then Some [(Some 11, 11), (Some 12, 12), (Some 13, 13)]
                            else if parent = 14 then Some [(Some 15, 15)]
                            else None)\<rparr>"

text \<open>
  The steps of \<open>remove\<close> up to the removal hooks, with the answer of the hooks: used
  to say that no hook handled the removal.
\<close>

definition removePrelude :: "'z removalEnv \<Rightarrow> nat \<Rightarrow> (bool, 'z) action" where
  "removePrelude E pid =
     thenDo (u_assertUnremoved E pid)
    (thenDo (resync E pid)
    (thenDo (\<lambda>s. if \<not> path_noScope (paths s pid) then u_removeFromScope E pid s
                else returns () s)
       (u_callRemovalHooks E pid)))"

section \<open>Theorems\<close>

subsection \<open>createFlowUnionType\<close>

lemma flattenType_no_union:
  "x \<in> set (flattenType t) \<Longrightarrow> \<not> isUnionTypeAnnotation x"
  by (induction t rule: flattenType.induct) auto

lemma removeTypeDuplicates_no_union:
  "x \<in> set (removeTypeDuplicates nodes) \<Longrightarrow> \<not> isUnionTypeAnnotation x"
  by (auto simp: removeTypeDuplicates_def dest: flattenType_no_union)

lemma removeTypeDuplicates_distinct: "distinct (removeTypeDuplicates nodes)"
  by (simp add: removeTypeDuplicates_def)

lemma createFlowUnionType_not_singleton:
  "createFlowUnionType types \<noteq> UnionTypeAnnotation [t]"
proof (cases "length (removeTypeDuplicates types) = 1")
  case True
  then have "removeTypeDuplicates types ! 0 \<in> set (removeTypeDuplicates types)"
    by simp
  then have "\<not> isUnionTypeAnnotation (removeTypeDuplicates types ! 0)"
    by (rule removeTypeDuplicates_no_union)
  with True show ?thesis
    by (auto simp: createFlowUnionType_def Let_def)
next
  case False
  then show ?thesis
    by (auto simp: createFlowUnionType_def Let_def)
qed

text \<open>
  C4. The union builder removes duplicate members. When exactly one unique member is left
  it returns that member itself, otherwise a union node over the deduplicated members; the
  result is never a one-member union. \<open>[A, A, B]\<close> gives the union \<open>A | B\<close> and
  \<open>[A, A]\<close> gives \<open>A\<close>.
\<close>

theorem createFlowUnionType_dedup:
  "distinct (removeTypeDuplicates types)
   \<and> createFlowUnionType types =
       (case removeTypeDuplicates types of
          [t] \<Rightarrow> t
        | ts \<Rightarrow> UnionTypeAnnotation ts)
   \<and> (\<forall>t. createFlowUnionType types \<noteq> UnionTypeAnnotation [t])
   \<and> createFlowUnionType
         [GenericTypeAnnotation ''A'', GenericTypeAnnotation ''A'', GenericTypeAnnotation ''B'']
       = UnionTypeAnnotation [GenericTypeAnnotation ''A'', GenericTypeAnnotation ''B'']
   \<and> createFlowUnionType [GenericTypeAnnotation ''A'', GenericTypeAnnotation ''A'']
       = GenericTypeAnnotation ''A''"
proof -
  have a: "createFlowUnionType types =
       (case removeTypeDuplicates types of
          [t] \<Rightarrow> t
        | ts \<Rightarrow> UnionTypeAnnotation ts)"
    by (cases "removeTypeDuplicates types" rule: list.exhaust)
       (auto simp: createFlowUnionType_def Let_def split: list.splits)
  have b: "createFlowUnionType
         [GenericTypeAnnotation ''A'', GenericTypeAnnotation ''A'', GenericTypeAnnotation ''B'']
       = UnionTypeAnnotation [GenericTypeAnnotation ''A'', GenericTypeAnnotation ''B'']"
    by (simp add: createFlowUnionType_def removeTypeDuplicates_def)
  have c: "createFlowUnionType [GenericTypeAnnotation ''A'', GenericTypeAnnotation ''A'']
       = GenericTypeAnnotation ''A''"
    by (simp add: createFlowUnionType_def removeTypeDuplicates_def)
  show ?thesis
    using a b c removeTypeDuplicates_distinct createFlowUnionType_not_singleton
    by blast
qed

subsection \<open>validate\<close>

text \<open>
  C6, as stated, fails: with a field schema for the node's type but none for the key, the
  call is not a no-op, because the parent-context validator of the value's own tag is
  still invoked (and here it throws).
\<close>

theorem validate_missing_key_counterexample:
  "exampleNodeFields ''ExpressionStatement'' \<noteq> None
   \<and> the (exampleNodeFields ''ExpressionStatement'') ''missing'' = None
   \<and> validate exampleNodeFields exampleParentValidations
        (Some \<lparr>ntype = ''ExpressionStatement''\<rparr>) ''missing''
        (JSNode \<lparr>ntype = ''MetaProperty''\<rparr>)
      = ([ParentValidatorCall ''MetaProperty''], Some ''invalid'')
   \<and> validate exampleNodeFields exampleParentValidations
        (Some \<lparr>ntype = ''ExpressionStatement''\<rparr>) ''missing''
        (JSNode \<lparr>ntype = ''MetaProperty''\<rparr>)
      \<noteq> ([], None)"
  by (simp add: validate_def validateField_def validateChild_def exampleNodeFields_def
      exampleParentValidations_def rejectAll_def)

text \<open>
  C6, amended. \<open>validate\<close> is a no-op when the node is absent or its type has no field
  schema. Otherwise the field part and the child part run in this order. The field part
  invokes the field's validator, unless the key has no field schema, the field has no
  validator, or the field is optional and the value is null or undefined. If the field
  part did not throw, the child part invokes the parent-context validator registered
  under the value's own tag, when the value is not null and such a validator exists; this
  does not depend on the key having a field schema.
\<close>

theorem validate_amended:
  "validate nodeFields parentValidations None key val = ([], None)
   \<and> (nodeFields (ntype n) = None \<longrightarrow>
        validate nodeFields parentValidations (Some n) key val = ([], None))
   \<and> (nodeFields (ntype n) = Some flds \<longrightarrow>
        validate nodeFields parentValidations (Some n) key val =
          (let fieldValidator =
                 (case flds key of
                    None \<Rightarrow> None
                  | Some f \<Rightarrow>
                      if fo_optional f \<and> isNullish val then None else fo_validate f);
               parentValidator =
                 (if isNullish val then None
                  else case typeOfValue val of
                         None \<Rightarrow> None
                       | Some ty \<Rightarrow> map_option (Pair ty) (parentValidations ty))
           in case (fieldValidator, parentValidator) of
                (None, None) \<Rightarrow> ([], None)
              | (None, Some (ty, pv)) \<Rightarrow> ([ParentValidatorCall ty], pv n key val)
              | (Some fv, None) \<Rightarrow> ([FieldValidatorCall key], fv n key val)
              | (Some fv, Some (ty, pv)) \<Rightarrow>
                  (case fv n key val of
                     Some e \<Rightarrow> ([FieldValidatorCall key], Some e)
                   | None \<Rightarrow>
                       ([FieldValidatorCall key, ParentValidatorCall ty], pv n key val))))"
  by (auto simp: validate_def validateField_def validateChild_def Let_def
      split: option.splits prod.splits)

theorem validate_amended_witness:
  "exampleNodeFields (ntype \<lparr>ntype = ''Identifier''\<rparr>) = None
   \<and> validate exampleNodeFields exampleParentValidations
        (Some \<lparr>ntype = ''Identifier''\<rparr>) ''name'' (JSPrimitive ''x'') = ([], None)
   \<and> exampleNodeFields (ntype \<lparr>ntype = ''ExpressionStatement''\<rparr>) \<noteq> None
   \<and> validate exampleNodeFields exampleParentValidations
        (Some \<lparr>ntype = ''ExpressionStatement''\<rparr>) ''extra'' JSNull = ([], None)
   \<and> validate exampleNodeFields exampleParentValidations
        (Some \<lparr>ntype = ''ExpressionStatement''\<rparr>) ''expression''
        (JSNode \<lparr>ntype = ''MetaProperty''\<rparr>)
      = ([FieldValidatorCall ''expression'', ParentValidatorCall ''MetaProperty''],
         Some ''invalid'')"
proof -
  let ?fields = "[''expression'' \<mapsto> \<lparr>fo_validate = Some acceptAll, fo_optional = False\<rparr>,
         ''extra'' \<mapsto> \<lparr>fo_validate = Some rejectAll, fo_optional = True\<rparr>]"
  have f: "exampleNodeFields (ntype \<lparr>ntype = ''ExpressionStatement''\<rparr>) = Some ?fields"
    by (simp add: exampleNodeFields_def)
  have g: "exampleNodeFields (ntype \<lparr>ntype = ''Identifier''\<rparr>) = None"
    by (simp add: exampleNodeFields_def)
  note a = validate_amended [of exampleNodeFields exampleParentValidations
      "''name''" "JSPrimitive ''x''" "\<lparr>ntype = ''Identifier''\<rparr>" ?fields]
  note b = validate_amended [of exampleNodeFields exampleParentValidations
      "''extra''" JSNull "\<lparr>ntype = ''ExpressionStatement''\<rparr>" ?fields]
  note c = validate_amended [of exampleNodeFields exampleParentValidations
      "''expression''" "JSNode \<lparr>ntype = ''MetaProperty''\<rparr>"
      "\<lparr>ntype = ''ExpressionStatement''\<rparr>" ?fields]
  have 1: "validate exampleNodeFields exampleParentValidations
        (Some \<lparr>ntype = ''Identifier''\<rparr>) ''name'' (JSPrimitive ''x'') = ([], None)"
    using a g by blast
  have 2: "validate exampleNodeFields exampleParentValidations
        (Some \<lparr>ntype = ''ExpressionStatement''\<rparr>) ''extra'' JSNull = ([], None)"
    using b f by simp
  have 3: "validate exampleNodeFields exampleParentValidations
        (Some \<lparr>ntype = ''ExpressionStatement''\<rparr>) ''expression''
        (JSNode \<lparr>ntype = ''MetaProperty''\<rparr>)
      = ([FieldValidatorCall ''expression'', ParentValidatorCall ''MetaProperty''],
         Some ''invalid'')"
    using c f by (simp add: exampleParentValidations_def acceptAll_def rejectAll_def)
  show ?thesis using 1 2 3 f g by simp
qed

subsection \<open>getModulesPluginNames\<close>

text \<open>
  C9. When the preset finds that dynamic import is to be transformed but ES modules are
  not being transformed or the format is "umd" (the format having a transform in the
  table), one warning is written, the plugin added for dynamic import is
  "syntax-dynamic-import", "transform-dynamic-import" is not added, and the remaining
  plugin names follow as usual: the function returns its list, there is no error path.
\<close>

theorem dynamic_import_fallback:
  assumes need: "presetShouldTransformDynamicImport modules apiCaller"
    and cannot: "\<not> presetShouldTransformESM modules apiCaller \<or> modules = Some ''umd''"
    and table: "truthyString (transformations ''auto'')"
               "truthyString (transformations ''umd'')"
  shows "\<exists>m rest.
           modules = Some m
           \<and> presetModulesPluginNames modules transformations apiCaller ensRequired =
               ((if presetShouldTransformESM modules apiCaller
                 then [the (transformations m)] else [])
                @ [''syntax-dynamic-import''] @ rest,
                [dynamicImportWarning])
           \<and> ''transform-dynamic-import'' \<notin> set rest
           \<and> ''syntax-import-meta'' \<in> set rest"
proof -
  from cannot have "modules = Some ''auto'' \<or> modules = Some ''umd''"
    by (auto simp: presetShouldTransformESM_def)
  then obtain m where m: "modules = Some m" "m = ''auto'' \<or> m = ''umd''"
    by auto
  with table have t: "truthyString (transformations m)"
    by auto
  from cannot m have no: "\<not> (presetShouldTransformESM modules apiCaller \<and> m \<noteq> ''umd'')"
    by auto
  show ?thesis
    using m(1) t no need
    by (auto simp: presetModulesPluginNames_def getModulesPluginNames_def
        dynamicImportPluginNames_def Let_def)
qed

theorem dynamic_import_fallback_witness:
  "presetShouldTransformDynamicImport (Some ''umd'') None
   \<and> truthyString (exampleTransformations ''auto'')
   \<and> truthyString (exampleTransformations ''umd'')
   \<and> presetModulesPluginNames (Some ''umd'') exampleTransformations None True =
       ([''transform-modules-umd'', ''syntax-dynamic-import'',
         ''transform-export-namespace-from'', ''syntax-top-level-await'',
         ''syntax-import-meta''],
        [dynamicImportWarning])"
proof -
  have need: "presetShouldTransformDynamicImport (Some ''umd'') None"
    by (simp add: presetShouldTransformDynamicImport_def)
  have cannot: "\<not> presetShouldTransformESM (Some ''umd'') None \<or> Some ''umd'' = Some ''umd''"
    by simp
  have t1: "truthyString (exampleTransformations ''auto'')"
    by (simp add: truthyString_def exampleTransformations_def)
  have t2: "truthyString (exampleTransformations ''umd'')"
    by (simp add: truthyString_def exampleTransformations_def)
  from dynamic_import_fallback [OF need cannot t1 t2, of True]
  have "snd (presetModulesPluginNames (Some ''umd'') exampleTransformations None True)
        = [dynamicImportWarning]"
    by auto
  moreover have "fst (presetModulesPluginNames (Some ''umd'') exampleTransformations None True)
        = [''transform-modules-umd'', ''syntax-dynamic-import'',
         ''transform-export-namespace-from'', ''syntax-top-level-await'',
         ''syntax-import-meta'']"
    by (simp add: presetModulesPluginNames_def getModulesPluginNames_def
        dynamicImportPluginNames_def Let_def truthyString_def exampleTransformations_def
        presetShouldTransformESM_def presetShouldTransformDynamicImport_def
        presetShouldSkipExportNamespaceFrom_def callerSupports_def)
  ultimately show ?thesis
    using need t1 t2 by (simp add: prod_eq_iff)
qed

subsection \<open>The token adjacency rules\<close>

















subsection \<open>newline\<close>

lemma newline_nonpositive: "i \<le> 0 \<Longrightarrow> newline E i force p = p"
  by (simp add: newline_def)

lemma newline_suppressed:
  "0 < i \<Longrightarrow> \<not> force \<Longrightarrow> retainLines (format p) \<or> compact (format p)
   \<Longrightarrow> newline E i force p = p"
  by (auto simp: newline_def)

lemma newline_concise:
  "0 < i \<Longrightarrow> \<not> force \<Longrightarrow> \<not> retainLines (format p) \<Longrightarrow> \<not> compact (format p)
   \<Longrightarrow> concise (format p)
   \<Longrightarrow> newline E i force p =
       (if buf_hasContent E (u_buf p) \<and> getLastChar E p \<noteq> c_space
           \<and> getLastChar E p \<noteq> c_lineFeed
        then u_space E p else p)"
  by (simp add: newline_def space_def Let_def)

lemma newline_emitted:
  "0 < i \<Longrightarrow> force \<or> (\<not> retainLines (format p) \<and> \<not> compact (format p) \<and> \<not> concise (format p))
   \<Longrightarrow> newline E i force p =
       (u_newline E ^^ (nat (min i 2) - buf_getNewlineCount E (u_buf p))) p"
proof -
  assume i: "0 < i"
    and f: "force \<or> (\<not> retainLines (format p) \<and> \<not> compact (format p) \<and> \<not> concise (format p))"
  have "nat ((if i > 2 then 2 else i) - int (buf_getNewlineCount E (u_buf p)))
        = nat (min i 2) - buf_getNewlineCount E (u_buf p)"
    by (simp add: min_def; arith)
  with i f show ?thesis
    by (auto simp: newline_def Let_def)
qed

text \<open>
  C10, as stated, fails in the concise case: the request is handed to \<open>space\<close>, which
  writes nothing into a buffer without content (or one that already ends with a space or
  a newline), so no space is emitted.
\<close>

theorem newline_concise_counterexample:
  "concise (format (printerWith conciseFormat []))
   \<and> \<not> retainLines (format (printerWith conciseFormat []))
   \<and> \<not> compact (format (printerWith conciseFormat []))
   \<and> u_buf (newline plainEnv 1 False (printerWith conciseFormat [])) = []
   \<and> u_buf (newline plainEnv 1 False (printerWith conciseFormat [97, c_space]))
       = [97, c_space]
   \<and> u_buf (newline plainEnv 1 False (printerWith conciseFormat [97])) = [97, c_space]"
  by (simp add: newline_def space_def u_space_def u_queue_def u_maybeIndent_def
      getLastChar_def endsWith_def plainEnv_def printerWith_def conciseFormat_def Let_def
      c_space_def c_lineFeed_def)

text \<open>
  C10, amended. \<open>newline i force\<close> does nothing when \<open>i \<le> 0\<close>. When not forced, it does
  nothing under retain-lines or compact formatting, and under concise formatting it
  queues at most one space and no newline: one space if the buffer has content that ends
  with neither a space nor a newline, nothing otherwise. In every other case it queues
  \<open>min i 2\<close> newlines less the newlines already pending in the buffer (none if that is not
  positive): at most two, and never more than bring the pending newlines to two.
\<close>

theorem newline_amended:
  "(i \<le> 0 \<longrightarrow> newline E i force p = p)
   \<and> (0 < i \<and> \<not> force \<and> (retainLines (format p) \<or> compact (format p)) \<longrightarrow>
        newline E i force p = p)
   \<and> (0 < i \<and> \<not> force \<and> \<not> retainLines (format p) \<and> \<not> compact (format p)
        \<and> concise (format p) \<longrightarrow>
        newline E i force p =
          (if buf_hasContent E (u_buf p) \<and> getLastChar E p \<noteq> c_space
              \<and> getLastChar E p \<noteq> c_lineFeed
           then u_space E p else p))
   \<and> (0 < i \<and> (force \<or> (\<not> retainLines (format p) \<and> \<not> compact (format p)
                          \<and> \<not> concise (format p))) \<longrightarrow>
        (\<exists>k. k = nat (min i 2) - buf_getNewlineCount E (u_buf p)
             \<and> newline E i force p = (u_newline E ^^ k) p
             \<and> k \<le> 2
             \<and> (k = 0 \<or> buf_getNewlineCount E (u_buf p) + k \<le> 2)))"
proof -
  have d: "nat (min i 2) - buf_getNewlineCount E (u_buf p) \<le> 2"
    by (simp add: min_def; arith)
  have e: "nat (min i 2) - buf_getNewlineCount E (u_buf p) = 0
           \<or> buf_getNewlineCount E (u_buf p)
              + (nat (min i 2) - buf_getNewlineCount E (u_buf p)) \<le> 2"
    by (simp add: min_def; arith)
  show ?thesis
    using newline_nonpositive [of i E force p] newline_suppressed [of i force p E]
      newline_concise [of i force p E] newline_emitted [of i force p E] d e
    by blast
qed

theorem newline_amended_witness:
  "u_buf (newline plainEnv 5 False (printerWith defaultFormat [97, c_lineFeed]))
     = [97, c_lineFeed, c_lineFeed]
   \<and> u_buf (newline plainEnv 1 False (printerWith defaultFormat [97, c_lineFeed]))
     = [97, c_lineFeed]
   \<and> newline plainEnv 0 True (printerWith defaultFormat [97]) = printerWith defaultFormat [97]"
proof -
  let ?p = "printerWith defaultFormat [97, c_lineFeed]"
  have cnt: "buf_getNewlineCount plainEnv (u_buf ?p) = 1"
    by (simp add: plainEnv_def printerWith_def c_lineFeed_def)
  have fmt: "\<not> retainLines (format ?p) \<and> \<not> compact (format ?p) \<and> \<not> concise (format ?p)"
    by (simp add: printerWith_def defaultFormat_def)
  have q: "u_buf (u_newline plainEnv ?p) = [97, c_lineFeed, c_lineFeed]"
    by (simp add: u_newline_def u_queue_def u_maybeIndent_def plainEnv_def printerWith_def
        Let_def)
  from newline_amended [of 5 plainEnv False ?p] fmt cnt
  have "newline plainEnv 5 False ?p = (u_newline plainEnv ^^ 1) ?p"
    by simp
  then have 1: "u_buf (newline plainEnv 5 False ?p) = [97, c_lineFeed, c_lineFeed]"
    using q by simp
  from newline_amended [of 1 plainEnv False ?p] fmt cnt
  have "newline plainEnv 1 False ?p = (u_newline plainEnv ^^ 0) ?p"
    by simp
  then have 2: "u_buf (newline plainEnv 1 False ?p) = [97, c_lineFeed]"
    by (simp add: printerWith_def)
  have 3: "newline plainEnv 0 True (printerWith defaultFormat [97])
           = printerWith defaultFormat [97]"
    using newline_amended [of 0 plainEnv True "printerWith defaultFormat [97]"] by simp
  show ?thesis using 1 2 3 by simp
qed

subsection \<open>hasMinVersion\<close>

lemma parseVersion_examples:
  "parseVersion ''7.4.0'' = Some (7, 4, 0)" "parseVersion ''7.5.0'' = Some (7, 5, 0)"
  "parseVersion ''8.0.0'' = Some (8, 0, 0)"
  by (simp_all add: parseVersion_def parseNumeric_def isDigit_def)

lemma parseRange_examples:
  "parseRange ''<7.5.0'' = Some [(OpLess, (7, 5, 0))]"
  "parseRange ''>=8.0.0'' = Some [(OpGreaterEq, (8, 0, 0))]"
  "parseRange ''^7.4.0'' = Some [(OpGreaterEq, (7, 4, 0)), (OpLess, (8, 0, 0))]"
  "parseRange ''^7.5.0'' = Some [(OpGreaterEq, (7, 5, 0)), (OpLess, (8, 0, 0))]"
  "parseRange ''^8.0.0'' = Some [(OpGreaterEq, (8, 0, 0)), (OpLess, (9, 0, 0))]"
  by (simp_all add: parseRange_def parseVersion_examples)

lemma semverValid_examples:
  "semverValid ''7.4.0''" "semverValid ''7.5.0''" "semverValid ''8.0.0''"
  by (simp_all add: semverValid_def parseVersion_examples)

lemma hasMinVersion_examples:
  "hasMinVersion semverValid semverIntersects ''7.5.0'' (Some ''7.4.0'') = Some False"
  "hasMinVersion semverValid semverIntersects ''7.5.0'' (Some ''7.5.0'') = Some True"
  "hasMinVersion semverValid semverIntersects ''7.5.0'' (Some ''8.0.0'') = Some False"
  "hasMinVersion semverValid semverIntersects ''7.5.0'' None = Some True"
  by (simp_all add: hasMinVersion_def falsy_def normalizeRuntimeVersion_def
      semverValid_examples semverIntersects_def parseRange_examples)

text \<open>
  C1. \<open>hasMinVersion\<close> returns true when the runtime version is absent (undefined or
  empty, the test is \<^verbatim>\<open>!runtimeVersion\<close>). Otherwise a valid exact version \<open>v\<close> is
  turned into the range \<open>^v\<close>, and the result is true exactly when that range intersects
  neither \<open><minVersion\<close> nor \<open>>=8.0.0\<close>; when semver rejects a range the call throws. On
  the modelled semver, with \<open>minVersion = 7.5.0\<close>: \<open>7.4.0\<close> gives false, \<open>7.5.0\<close> true,
  \<open>8.0.0\<close> false and undefined true.
\<close>

theorem hasMinVersion_spec:
  "(falsy runtimeVersion \<longrightarrow>
      hasMinVersion valid intersects minVersion runtimeVersion = Some True)
   \<and> (\<not> falsy runtimeVersion \<longrightarrow>
        (let range = (if valid (the runtimeVersion) then ''^'' @ the runtimeVersion
                      else the runtimeVersion);
             below = intersects (''<'' @ minVersion) range;
             nextMajor = intersects ''>=8.0.0'' range
         in (below = Some a \<and> nextMajor = Some b \<longrightarrow>
               hasMinVersion valid intersects minVersion runtimeVersion
                 = Some (\<not> a \<and> \<not> b))
            \<and> (below = Some True \<longrightarrow>
                 hasMinVersion valid intersects minVersion runtimeVersion = Some False)
            \<and> (below = None \<or> (below = Some False \<and> nextMajor = None) \<longrightarrow>
                 hasMinVersion valid intersects minVersion runtimeVersion = None)))
   \<and> hasMinVersion semverValid semverIntersects ''7.5.0'' (Some ''7.4.0'') = Some False
   \<and> hasMinVersion semverValid semverIntersects ''7.5.0'' (Some ''7.5.0'') = Some True
   \<and> hasMinVersion semverValid semverIntersects ''7.5.0'' (Some ''8.0.0'') = Some False
   \<and> hasMinVersion semverValid semverIntersects ''7.5.0'' None = Some True"
proof -
  have 1: "falsy runtimeVersion \<longrightarrow>
      hasMinVersion valid intersects minVersion runtimeVersion = Some True"
    by (simp add: hasMinVersion_def)
  have 2: "\<not> falsy runtimeVersion \<longrightarrow>
        (let range = (if valid (the runtimeVersion) then ''^'' @ the runtimeVersion
                      else the runtimeVersion);
             below = intersects (''<'' @ minVersion) range;
             nextMajor = intersects ''>=8.0.0'' range
         in (below = Some a \<and> nextMajor = Some b \<longrightarrow>
               hasMinVersion valid intersects minVersion runtimeVersion
                 = Some (\<not> a \<and> \<not> b))
            \<and> (below = Some True \<longrightarrow>
                 hasMinVersion valid intersects minVersion runtimeVersion = Some False)
            \<and> (below = None \<or> (below = Some False \<and> nextMajor = None) \<longrightarrow>
                 hasMinVersion valid intersects minVersion runtimeVersion = None))"
    by (auto simp: hasMinVersion_def normalizeRuntimeVersion_def Let_def
        split: option.splits bool.splits)
  show ?thesis
    using 1 2 hasMinVersion_examples by simp
qed

theorem hasMinVersion_spec_witness:
  "\<not> falsy (Some ''7.6.2'')
   \<and> semverValid ''7.6.2''
   \<and> semverIntersects ''<7.5.0'' ''^7.6.2'' = Some False
   \<and> semverIntersects ''>=8.0.0'' ''^7.6.2'' = Some False
   \<and> hasMinVersion semverValid semverIntersects ''7.5.0'' (Some ''7.6.2'') = Some True
   \<and> falsy (Some '''')
   \<and> hasMinVersion semverValid semverIntersects ''7.5.0'' (Some '''') = Some True
   \<and> semverIntersects ''<7.5.0'' ''latest'' = None
   \<and> hasMinVersion semverValid semverIntersects ''7.5.0'' (Some ''latest'') = None"
proof -
  have v: "parseVersion ''7.6.2'' = Some (7, 6, 2)"
    by (simp add: parseVersion_def parseNumeric_def isDigit_def)
  have nf: "\<not> falsy (Some ''7.6.2'')" by (simp add: falsy_def)
  have sv: "semverValid ''7.6.2''" by (simp add: semverValid_def v)
  have r: "parseRange ''^7.6.2'' = Some [(OpGreaterEq, (7, 6, 2)), (OpLess, (8, 0, 0))]"
    by (simp add: parseRange_def v)
  have a: "semverIntersects ''<7.5.0'' ''^7.6.2'' = Some False"
    by (simp add: semverIntersects_def r parseRange_examples)
  have b: "semverIntersects ''>=8.0.0'' ''^7.6.2'' = Some False"
    by (simp add: semverIntersects_def r parseRange_examples)
  have 1: "hasMinVersion semverValid semverIntersects ''7.5.0'' (Some ''7.6.2'') = Some True"
    using hasMinVersion_spec [of "Some ''7.6.2''" semverValid semverIntersects "''7.5.0''"
        False False]
      nf sv a b
    by (simp add: Let_def)
  have f: "falsy (Some '''')" by (simp add: falsy_def)
  have 2: "hasMinVersion semverValid semverIntersects ''7.5.0'' (Some '''') = Some True"
    using hasMinVersion_spec [of "Some ''''" semverValid semverIntersects "''7.5.0''"] f
    by blast
  have nl: "\<not> falsy (Some ''latest'')" by (simp add: falsy_def)
  have vl: "\<not> semverValid ''latest''"
    by (simp add: semverValid_def parseVersion_def parseNumeric_def isDigit_def)
  have "parseRange ''latest'' = None"
    by (simp add: parseRange_def)
  then have c: "semverIntersects ''<7.5.0'' ''latest'' = None"
    by (simp add: semverIntersects_def parseRange_examples)
  have 3: "hasMinVersion semverValid semverIntersects ''7.5.0'' (Some ''latest'') = None"
    using hasMinVersion_spec [of "Some ''latest''" semverValid semverIntersects "''7.5.0''"]
      nl vl c
    by (simp add: Let_def)
  show ?thesis using nf sv a b 1 f 2 c 3 by simp
qed

subsection \<open>The static block transform\<close>









lemma list_all2_Cons_becomes:
  "becomes m m' \<Longrightarrow> list_all2 becomes ms ms' \<Longrightarrow> list_all2 becomes (m # ms) (m' # ms')"
  by simp




subsection \<open>Plugin selection and target versions\<close>







subsection \<open>Removing a path twice\<close>

lemma flag_set: "((f :: 32 word) OR (a OR r)) AND r = r"
  by (rule bit_eqI) (auto simp: bit_simps)

lemma updatePath_same: "paths (updatePath pid f s) pid = f (paths s pid)"
  by (simp add: updatePath_def)

lemma updatePath_pathCache: "pathCache (updatePath pid f s) = pathCache s"
  by (simp add: updatePath_def)

lemma u_markRemoved_removed:
  assumes "u_markRemoved E pid t = (Inr u, t')" and "REMOVED E \<noteq> 0"
  shows "removed E pid t'"
proof -
  let ?t1 = "updatePath pid
      (\<lambda>p. p\<lparr>path_traverseFlags := path_traverseFlags p OR (SHOULD_SKIP E OR REMOVED E)\<rparr>) t"
  have f1: "path_traverseFlags (paths ?t1 pid) AND REMOVED E = REMOVED E"
    by (simp add: updatePath_same flag_set)
  from assms(1) have "path_traverseFlags (paths t' pid) = path_traverseFlags (paths ?t1 pid)"
    by (auto simp: u_markRemoved_def Let_def returns_def throws_def updatePath_def
        split: option.splits)
  with f1 assms(2) show ?thesis
    by (simp add: removed_def)
qed

lemma thenDo_Inr:
  "thenDo m n s = (Inr x, s') \<Longrightarrow> \<exists>t. m s = (Inr (), t) \<and> n t = (Inr x, s')"
  by (auto simp: thenDo_def andThen_def split: prod.splits sum.splits)

lemma andThen_Inr:
  "andThen m f s = (Inr x, s') \<Longrightarrow> \<exists>y t. m s = (Inr y, t) \<and> f y t = (Inr x, s')"
  by (auto simp: andThen_def split: prod.splits sum.splits)

lemma remove_ends_marked:
  assumes "remove E pid s = (Inr u, s')"
  shows "\<exists>t. u_markRemoved E pid t = (Inr u, s')"
proof -
  from assms obtain t1 where 1:
      "thenDo (resync E pid)
        (thenDo (\<lambda>s. if \<not> path_noScope (paths s pid) then u_removeFromScope E pid s
                    else returns () s)
        (andThen (u_callRemovalHooks E pid)
           (\<lambda>handled.
              if handled then u_markRemoved E pid
              else thenDo (shareCommentsWithSiblings E pid)
                  (thenDo (u_remove pid) (u_markRemoved E pid))))) t1 = (Inr u, s')"
    unfolding remove_def by (blast dest: thenDo_Inr)
  then obtain t2 where 2:
      "thenDo (\<lambda>s. if \<not> path_noScope (paths s pid) then u_removeFromScope E pid s
                    else returns () s)
        (andThen (u_callRemovalHooks E pid)
           (\<lambda>handled.
              if handled then u_markRemoved E pid
              else thenDo (shareCommentsWithSiblings E pid)
                  (thenDo (u_remove pid) (u_markRemoved E pid)))) t2 = (Inr u, s')"
    by (blast dest: thenDo_Inr)
  then obtain t3 where 3:
      "andThen (u_callRemovalHooks E pid)
           (\<lambda>handled.
              if handled then u_markRemoved E pid
              else thenDo (shareCommentsWithSiblings E pid)
                  (thenDo (u_remove pid) (u_markRemoved E pid))) t3 = (Inr u, s')"
    by (blast dest: thenDo_Inr)
  then obtain handled t4 where 4:
      "(if handled then u_markRemoved E pid
        else thenDo (shareCommentsWithSiblings E pid)
               (thenDo (u_remove pid) (u_markRemoved E pid))) t4 = (Inr u, s')"
    by (blast dest: andThen_Inr)
  show ?thesis
  proof (cases handled)
    case True
    with 4 show ?thesis by auto
  next
    case False
    with 4 have "thenDo (shareCommentsWithSiblings E pid)
               (thenDo (u_remove pid) (u_markRemoved E pid)) t4 = (Inr u, s')"
      by simp
    then obtain t5 where "thenDo (u_remove pid) (u_markRemoved E pid) t5 = (Inr u, s')"
      by (blast dest: thenDo_Inr)
    then show ?thesis by (blast dest: thenDo_Inr)
  qed
qed

lemma remove_removed:
  "removed E pid s \<Longrightarrow>
   remove E pid s = (Inl (CodeFrameError ''NodePath has been removed so is read-only.''), s)"
  by (simp add: remove_def thenDo_def andThen_def u_assertUnremoved_def throws_def)

text \<open>
  C2. After \<open>remove\<close> has succeeded on a path, a second \<open>remove\<close> on it throws the
  error "NodePath has been removed so is read-only." and leaves the whole store as it
  was: containers, scopes and path cache. (\<open>REMOVED\<close> is a flag, so it is not zero.)
\<close>

theorem remove_twice_rejected:
  assumes "REMOVED E \<noteq> 0" and "remove E pid s = (Inr u, s')"
  shows "remove E pid s' =
           (Inl (CodeFrameError ''NodePath has been removed so is read-only.''), s')"
proof -
  from assms(2) obtain t where "u_markRemoved E pid t = (Inr u, s')"
    using remove_ends_marked by blast
  from u_markRemoved_removed [OF this assms(1)] show ?thesis
    by (rule remove_removed)
qed

subsection \<open>What a removal changes\<close>

lemma remove_after_prelude:
  "remove E pid =
     andThen (removePrelude E pid)
       (\<lambda>handled.
          if handled then u_markRemoved E pid
          else thenDo (shareCommentsWithSiblings E pid)
              (thenDo (u_remove pid) (u_markRemoved E pid)))"
  by (rule ext)
     (simp add: remove_def removePrelude_def thenDo_def andThen_def
        split: prod.splits sum.splits)

lemma fold_updatePath_paths:
  "distinct qs \<Longrightarrow>
   paths (fold (\<lambda>q. updatePath q f) qs s) q = (if q \<in> set qs then f (paths s q) else paths s q)"
proof (induction qs arbitrary: s)
  case Nil
  show ?case by simp
next
  case (Cons x xs)
  then show ?case by (auto simp: updatePath_def)
qed

lemma fold_updatePath_rest:
  "arrays (fold (\<lambda>q. updatePath q f) qs s) = arrays s
   \<and> slots (fold (\<lambda>q. updatePath q f) qs s) = slots s
   \<and> pathCache (fold (\<lambda>q. updatePath q f) qs s) = pathCache s
   \<and> world.more (fold (\<lambda>q. updatePath q f) qs s) = world.more s"
  by (induction qs arbitrary: s) (simp_all add: updatePath_def)

lemma spliceOne_in_range:
  "0 \<le> k \<Longrightarrow> k < int (length xs)
   \<Longrightarrow> spliceOne xs k = take (nat k) xs @ drop (nat k + 1) xs"
  by (simp add: spliceOne_def Let_def min_def)

lemma shiftKey_keeps:
  "path_parent (shiftKey c k d p) = path_parent p"
  "path_node (shiftKey c k d p) = path_node p"
  "path_container (shiftKey c k d p) = path_container p"
  "path_traverseFlags (shiftKey c k d p) = path_traverseFlags p"
  by (simp_all add: shiftKey_def split: pathKey.splits)

lemma u_remove_array:
  assumes c: "path_container (paths t pid) = Some (ArrayContainer a)"
    and k: "path_key (paths t pid) = NumberKey k"
    and p: "path_parent (paths t pid) = Some par"
  shows "\<exists>t2. u_remove pid t = (Inr (), t2)
           \<and> arrays t2 = (arrays t)(a := spliceOne (arrays t a) k)
           \<and> slots t2 = slots t \<and> pathCache t2 = pathCache t
           \<and> world.more t2 = world.more t
           \<and> (\<forall>q. paths t2 q =
                 (if q \<in> set (cachedPaths t par)
                  then shiftKey (Some (ArrayContainer a)) k (- 1) (paths t q)
                  else paths t q))"
proof -
  let ?t1 = "t\<lparr>arrays := (arrays t)(a := spliceOne (arrays t a) k)\<rparr>"
  let ?t2 = "fold (\<lambda>q. updatePath q (shiftKey (Some (ArrayContainer a)) k (- 1)))
               (remdups (cachedPaths t par)) ?t1"
  have cp: "cachedPaths ?t1 par = cachedPaths t par"
    by (simp add: cachedPaths_def)
  have r: "u_remove pid t = (Inr (), ?t2)"
    using c k p
    by (simp add: u_remove_def Let_def thenDo_def andThen_def modify_def
        updateSiblingKeys_def returns_def cp)
  have "\<forall>q. paths ?t2 q =
                 (if q \<in> set (cachedPaths t par)
                  then shiftKey (Some (ArrayContainer a)) k (- 1) (paths t q)
                  else paths t q)"
    by (simp add: fold_updatePath_paths)
  then show ?thesis
    using r fold_updatePath_rest
      [of "shiftKey (Some (ArrayContainer a)) k (- 1)" "remdups (cachedPaths t par)" ?t1]
    by auto
qed

lemma u_markRemoved_cached:
  assumes p: "path_parent (paths t pid) = Some par"
    and m: "pathCache t par = Some m"
  shows "\<exists>t'. u_markRemoved E pid t = (Inr (), t')
           \<and> arrays t' = arrays t \<and> slots t' = slots t \<and> world.more t' = world.more t
           \<and> pathCache t' =
               (pathCache t)(par \<mapsto> filter (\<lambda>entry. fst entry \<noteq> path_node (paths t pid)) m)
           \<and> paths t' =
               (paths t)(pid := (paths t pid)
                  \<lparr>path_node := None,
                   path_traverseFlags :=
                     path_traverseFlags (paths t pid) OR (SHOULD_SKIP E OR REMOVED E)\<rparr>)"
  using p m
  by (auto simp: u_markRemoved_def Let_def updatePath_def returns_def fun_upd_def
      intro!: ext)

lemma remove_unhandled:
  assumes "removePrelude E pid s = (Inr False, t0)"
    and "shareCommentsWithSiblings E pid t0 = (Inr (), t)"
  shows "remove E pid s = thenDo (u_remove pid) (u_markRemoved E pid) t"
  using assms by (simp add: remove_after_prelude andThen_def thenDo_def)

lemma remove_array_case:
  assumes run: "remove E pid s = thenDo (u_remove pid) (u_markRemoved E pid) t"
    and par: "path_parent (paths t pid) = Some par"
    and cache: "pathCache t par = Some m"
    and flag: "REMOVED E \<noteq> 0"
    and c: "path_container (paths t pid) = Some (ArrayContainer a)"
    and k: "path_key (paths t pid) = NumberKey k"
    and k0: "0 \<le> k" and k1: "k < int (length (arrays t a))"
  shows "\<exists>t'. remove E pid s = (Inr (), t')
           \<and> arrays t' = (arrays t)(a := take (nat k) (arrays t a) @ drop (nat k + 1) (arrays t a))
           \<and> slots t' = slots t \<and> world.more t' = world.more t
           \<and> (\<forall>q. q \<noteq> pid \<longrightarrow>
                 paths t' q =
                   (if q \<in> set (cachedPaths t par)
                    then shiftKey (Some (ArrayContainer a)) k (- 1) (paths t q)
                    else paths t q))
           \<and> removed E pid t' \<and> path_node (paths t' pid) = None
           \<and> pathCache t' =
               (pathCache t)(par \<mapsto> filter (\<lambda>entry. fst entry \<noteq> path_node (paths t pid)) m)"
proof -
  from u_remove_array [OF c k par] obtain t2 where t2:
      "u_remove pid t = (Inr (), t2)"
      "arrays t2 = (arrays t)(a := spliceOne (arrays t a) k)"
      "slots t2 = slots t" "pathCache t2 = pathCache t" "world.more t2 = world.more t"
      "\<forall>q. paths t2 q =
                 (if q \<in> set (cachedPaths t par)
                  then shiftKey (Some (ArrayContainer a)) k (- 1) (paths t q)
                  else paths t q)"
    by blast
  from t2(6) par have par2: "path_parent (paths t2 pid) = Some par"
    by (simp add: shiftKey_keeps)
  from t2(6) have node2: "path_node (paths t2 pid) = path_node (paths t pid)"
    by (simp add: shiftKey_keeps)
  from cache t2(4) have cache2: "pathCache t2 par = Some m" by simp
  from u_markRemoved_cached [OF par2 cache2, of E] obtain t' where t':
      "u_markRemoved E pid t2 = (Inr (), t')"
      "arrays t' = arrays t2" "slots t' = slots t2" "world.more t' = world.more t2"
      "pathCache t' =
         (pathCache t2)(par \<mapsto> filter (\<lambda>entry. fst entry \<noteq> path_node (paths t2 pid)) m)"
      "paths t' =
         (paths t2)(pid := (paths t2 pid)
            \<lparr>path_node := None,
             path_traverseFlags :=
               path_traverseFlags (paths t2 pid) OR (SHOULD_SKIP E OR REMOVED E)\<rparr>)"
    by blast
  have r: "remove E pid s = (Inr (), t')"
    using run t2(1) t'(1) by (simp add: thenDo_def andThen_def)
  have rm: "removed E pid t'"
    using u_markRemoved_removed [OF t'(1) flag] .
  have others: "\<forall>q. q \<noteq> pid \<longrightarrow>
                 paths t' q =
                   (if q \<in> set (cachedPaths t par)
                    then shiftKey (Some (ArrayContainer a)) k (- 1) (paths t q)
                    else paths t q)"
    using t'(6) t2(6) by simp
  have nd: "path_node (paths t' pid) = None"
    using t'(6) by simp
  have ar: "arrays t' = (arrays t)(a := take (nat k) (arrays t a) @ drop (nat k + 1) (arrays t a))"
    using t'(2) t2(2) spliceOne_in_range [OF k0 k1] by simp
  have ca: "pathCache t' =
               (pathCache t)(par \<mapsto> filter (\<lambda>entry. fst entry \<noteq> path_node (paths t pid)) m)"
    using t'(5) t2(4) node2 by simp
  show ?thesis
    using r ar t'(3,4) t2(3,5) others rm nd ca by auto
qed

lemma cacheRekey_evicted:
  "filter (\<lambda>entry. fst entry \<noteq> None) (cacheRekey old None pid m)
   = filter (\<lambda>entry. fst entry \<noteq> old \<and> fst entry \<noteq> None) m"
proof -
  have a: "filter (\<lambda>entry. fst entry \<noteq> None) (filter (\<lambda>entry. fst entry \<noteq> old) xs)
        = filter (\<lambda>entry. fst entry \<noteq> old \<and> fst entry \<noteq> None) xs"
    for xs :: "(nat option \<times> nat) list"
    by (induction xs) auto
  have b: "filter (\<lambda>entry. fst entry \<noteq> old \<and> fst entry \<noteq> None)
          (map (\<lambda>entry. if fst entry = None then (None, pid) else entry) m)
        = filter (\<lambda>entry. fst entry \<noteq> old \<and> fst entry \<noteq> None) m"
    by (induction m) auto
  have c: "filter (\<lambda>entry. fst entry \<noteq> old \<and> fst entry \<noteq> None) (m @ [(None, pid)])
        = filter (\<lambda>entry. fst entry \<noteq> old \<and> fst entry \<noteq> None) m"
    by simp
  show ?thesis
    unfolding cacheRekey_def a using b c by (simp split: if_splits)
qed

lemma remove_slot_case:
  assumes run: "remove E pid s = thenDo (u_remove pid) (u_markRemoved E pid) t"
    and par: "path_parent (paths t pid) = Some par"
    and cache: "pathCache t par = Some m"
    and flag: "REMOVED E \<noteq> 0"
    and c: "path_container (paths t pid) = Some (ObjectContainer obj)"
    and k: "path_key (paths t pid) = StringKey name"
  shows "\<exists>t'. remove E pid s = (Inr (), t')
           \<and> slots t' = (slots t)(obj := (slots t obj)(name := None))
           \<and> arrays t' = arrays t \<and> world.more t' = world.more t
           \<and> (\<forall>q. q \<noteq> pid \<longrightarrow> paths t' q = paths t q)
           \<and> removed E pid t' \<and> path_node (paths t' pid) = None
           \<and> pathCache t' =
               (pathCache t)(par \<mapsto>
                  filter (\<lambda>entry. fst entry \<noteq> path_node (paths t pid) \<and> fst entry \<noteq> None) m)"
proof -
  let ?t2 = "updatePath pid (\<lambda>q. q\<lparr>path_node := None\<rparr>)
      (writeSlot (ObjectContainer obj) (StringKey name) None
        (t\<lparr>pathCache := (pathCache t)
              (par \<mapsto> cacheRekey (path_node (paths t pid)) None pid m)\<rparr>))"
  have u: "u_remove pid t = (Inr (), ?t2)"
    using c k par cache
    by (simp add: u_remove_def u_replaceWith_def Let_def returns_def)
  have par2: "path_parent (paths ?t2 pid) = Some par"
    using par by (simp add: updatePath_def writeSlot_def)
  have cache2: "pathCache ?t2 par
      = Some (cacheRekey (path_node (paths t pid)) None pid m)"
    by (simp add: updatePath_def writeSlot_def)
  from u_markRemoved_cached [OF par2 cache2, of E] obtain t' where t':
      "u_markRemoved E pid ?t2 = (Inr (), t')"
      "arrays t' = arrays ?t2" "slots t' = slots ?t2" "world.more t' = world.more ?t2"
      "pathCache t' =
         (pathCache ?t2)(par \<mapsto> filter (\<lambda>entry. fst entry \<noteq> path_node (paths ?t2 pid))
            (cacheRekey (path_node (paths t pid)) None pid m))"
      "paths t' =
         (paths ?t2)(pid := (paths ?t2 pid)
            \<lparr>path_node := None,
             path_traverseFlags :=
               path_traverseFlags (paths ?t2 pid) OR (SHOULD_SKIP E OR REMOVED E)\<rparr>)"
    by blast
  have r: "remove E pid s = (Inr (), t')"
    using run u t'(1) by (simp add: thenDo_def andThen_def)
  have rm: "removed E pid t'"
    using u_markRemoved_removed [OF t'(1) flag] .
  have sl: "slots t' = (slots t)(obj := (slots t obj)(name := None))"
    using t'(3) by (simp add: updatePath_def writeSlot_def)
  have ar: "arrays t' = arrays t \<and> world.more t' = world.more t"
    using t'(2,4) by (simp add: updatePath_def writeSlot_def)
  have others: "\<forall>q. q \<noteq> pid \<longrightarrow> paths t' q = paths t q"
    using t'(6) by (simp add: updatePath_def writeSlot_def)
  have nd: "path_node (paths t' pid) = None"
    using t'(6) by simp
  have "path_node (paths ?t2 pid) = None"
    by (simp add: updatePath_def)
  then have ca: "pathCache t' =
               (pathCache t)(par \<mapsto>
                  filter (\<lambda>entry. fst entry \<noteq> path_node (paths t pid) \<and> fst entry \<noteq> None) m)"
    using t'(5) cacheRekey_evicted [of "path_node (paths t pid)" pid m]
    by (simp add: updatePath_def writeSlot_def)
  show ?thesis
    using r sl ar others rm nd ca by auto
qed

lemma example_prelude:
  "removePrelude plainRemovalEnv 12 exampleWorld = (Inr False, exampleWorld)"
  "removePrelude plainRemovalEnv 15 exampleWorld = (Inr False, exampleWorld)"
  "shareCommentsWithSiblings plainRemovalEnv pid exampleWorld = (Inr (), exampleWorld)"
  "REMOVED plainRemovalEnv \<noteq> 0"
  by (simp_all add: removePrelude_def thenDo_def andThen_def u_assertUnremoved_def
      removed_def u_removeFromScope_def u_callRemovalHooks_def returns_def
      plainRemovalEnv_def exampleWorld_def statementPath_def expressionPath_def)

lemma example_paths:
  "paths exampleWorld 11 = statementPath 11 0" "paths exampleWorld 12 = statementPath 12 1"
  "paths exampleWorld 13 = statementPath 13 2" "paths exampleWorld 15 = expressionPath"
  "arrays exampleWorld 10 = [11, 12, 13]"
  "pathCache exampleWorld 10 = Some [(Some 11, 11), (Some 12, 12), (Some 13, 13)]"
  "pathCache exampleWorld 14 = Some [(Some 15, 15)]"
  "cachedPaths exampleWorld 10 = [11, 12, 13]"
  by (simp_all add: exampleWorld_def cachedPaths_def)

text \<open>
  C5. When no removal hook handles the removal of a path that has a parent with a path
  cache: if the path sits at index \<open>k\<close> of an array of \<open>n\<close> nodes, \<open>remove\<close> returns and
  the array holds the other \<open>n - 1\<close> nodes in their order, every other array and every
  slot is as before, a sibling path after index \<open>k\<close> has its key lowered by one, a
  sibling path before \<open>k\<close> and every path elsewhere is as before; if it sits in a slot of
  an object, the slot is null and every other slot, every array and every other path is
  as before. In both cases the path is marked removed, points at no node, and the
  parent's path cache has lost the entry of its node.
\<close>

theorem remove_detaches:
  assumes unhandled: "removePrelude E pid s = (Inr False, t0)"
    and comments: "shareCommentsWithSiblings E pid t0 = (Inr (), t)"
    and par: "path_parent (paths t pid) = Some par"
    and cache: "pathCache t par = Some m"
    and flag: "REMOVED E \<noteq> 0"
  shows
   "(path_container (paths t pid) = Some (ArrayContainer a)
     \<and> path_key (paths t pid) = NumberKey k \<and> 0 \<le> k \<and> k < int (length (arrays t a)) \<longrightarrow>
      (\<exists>t'. remove E pid s = (Inr (), t')
         \<and> arrays t' a = take (nat k) (arrays t a) @ drop (nat k + 1) (arrays t a)
         \<and> length (arrays t' a) = length (arrays t a) - 1
         \<and> (\<forall>b. b \<noteq> a \<longrightarrow> arrays t' b = arrays t b)
         \<and> slots t' = slots t \<and> world.more t' = world.more t
         \<and> (\<forall>q j. q \<noteq> pid \<and> q \<in> set (cachedPaths t par)
                \<and> path_container (paths t q) = Some (ArrayContainer a)
                \<and> path_key (paths t q) = NumberKey j \<longrightarrow>
                (k < j \<longrightarrow> paths t' q = (paths t q)\<lparr>path_key := NumberKey (j - 1)\<rparr>)
                \<and> (j < k \<longrightarrow> paths t' q = paths t q))
         \<and> (\<forall>q. q \<noteq> pid
                \<and> (q \<notin> set (cachedPaths t par)
                     \<or> path_container (paths t q) \<noteq> Some (ArrayContainer a)) \<longrightarrow>
                paths t' q = paths t q)
         \<and> removed E pid t' \<and> path_node (paths t' pid) = None
         \<and> pathCache t' =
             (pathCache t)(par \<mapsto> filter (\<lambda>entry. fst entry \<noteq> path_node (paths t pid)) m)))
    \<and> (path_container (paths t pid) = Some (ObjectContainer obj)
        \<and> path_key (paths t pid) = StringKey name \<longrightarrow>
      (\<exists>t'. remove E pid s = (Inr (), t')
         \<and> slots t' obj name = None
         \<and> (\<forall>obj' name'. (obj', name') \<noteq> (obj, name) \<longrightarrow>
               slots t' obj' name' = slots t obj' name')
         \<and> arrays t' = arrays t \<and> world.more t' = world.more t
         \<and> (\<forall>q. q \<noteq> pid \<longrightarrow> paths t' q = paths t q)
         \<and> removed E pid t' \<and> path_node (paths t' pid) = None
         \<and> pathCache t' =
             (pathCache t)(par \<mapsto>
                filter (\<lambda>entry. fst entry \<noteq> path_node (paths t pid) \<and> fst entry \<noteq> None) m)))"
proof (intro conjI impI)
  note run = remove_unhandled [OF unhandled comments]
  {
    assume h: "path_container (paths t pid) = Some (ArrayContainer a)
     \<and> path_key (paths t pid) = NumberKey k \<and> 0 \<le> k \<and> k < int (length (arrays t a))"
    then have c: "path_container (paths t pid) = Some (ArrayContainer a)"
      and k: "path_key (paths t pid) = NumberKey k"
      and k0: "0 \<le> k" and k1: "k < int (length (arrays t a))"
      by simp_all
    from remove_array_case [OF run par cache flag c k k0 k1] obtain t' where t':
        "remove E pid s = (Inr (), t')"
        "arrays t' = (arrays t)(a := take (nat k) (arrays t a) @ drop (nat k + 1) (arrays t a))"
        "slots t' = slots t" "world.more t' = world.more t"
        "\<forall>q. q \<noteq> pid \<longrightarrow>
                 paths t' q =
                   (if q \<in> set (cachedPaths t par)
                    then shiftKey (Some (ArrayContainer a)) k (- 1) (paths t q)
                    else paths t q)"
        "removed E pid t'" "path_node (paths t' pid) = None"
        "pathCache t' =
               (pathCache t)(par \<mapsto> filter (\<lambda>entry. fst entry \<noteq> path_node (paths t pid)) m)"
      by blast
    have len: "length (arrays t' a) = length (arrays t a) - 1"
      using t'(2) k0 k1 by (simp; arith)
    have sib: "\<forall>q j. q \<noteq> pid \<and> q \<in> set (cachedPaths t par)
                \<and> path_container (paths t q) = Some (ArrayContainer a)
                \<and> path_key (paths t q) = NumberKey j \<longrightarrow>
                (k < j \<longrightarrow> paths t' q = (paths t q)\<lparr>path_key := NumberKey (j - 1)\<rparr>)
                \<and> (j < k \<longrightarrow> paths t' q = paths t q)"
      using t'(5) by (auto simp: shiftKey_def)
    have oth: "\<forall>q. q \<noteq> pid
                \<and> (q \<notin> set (cachedPaths t par)
                     \<or> path_container (paths t q) \<noteq> Some (ArrayContainer a)) \<longrightarrow>
                paths t' q = paths t q"
      using t'(5) by (auto simp: shiftKey_def split: pathKey.splits)
    show "\<exists>t'. remove E pid s = (Inr (), t')
         \<and> arrays t' a = take (nat k) (arrays t a) @ drop (nat k + 1) (arrays t a)
         \<and> length (arrays t' a) = length (arrays t a) - 1
         \<and> (\<forall>b. b \<noteq> a \<longrightarrow> arrays t' b = arrays t b)
         \<and> slots t' = slots t \<and> world.more t' = world.more t
         \<and> (\<forall>q j. q \<noteq> pid \<and> q \<in> set (cachedPaths t par)
                \<and> path_container (paths t q) = Some (ArrayContainer a)
                \<and> path_key (paths t q) = NumberKey j \<longrightarrow>
                (k < j \<longrightarrow> paths t' q = (paths t q)\<lparr>path_key := NumberKey (j - 1)\<rparr>)
                \<and> (j < k \<longrightarrow> paths t' q = paths t q))
         \<and> (\<forall>q. q \<noteq> pid
                \<and> (q \<notin> set (cachedPaths t par)
                     \<or> path_container (paths t q) \<noteq> Some (ArrayContainer a)) \<longrightarrow>
                paths t' q = paths t q)
         \<and> removed E pid t' \<and> path_node (paths t' pid) = None
         \<and> pathCache t' =
             (pathCache t)(par \<mapsto> filter (\<lambda>entry. fst entry \<noteq> path_node (paths t pid)) m)"
      apply (rule exI [of _ t'])
      using t'(1) t'(2) len t'(3) t'(4) sib oth t'(6) t'(7) t'(8)
      apply simp
      done
  }
  {
    assume h: "path_container (paths t pid) = Some (ObjectContainer obj)
        \<and> path_key (paths t pid) = StringKey name"
    then have c: "path_container (paths t pid) = Some (ObjectContainer obj)"
      and k: "path_key (paths t pid) = StringKey name"
      by simp_all
    from remove_slot_case [OF run par cache flag c k] obtain t' where t':
        "remove E pid s = (Inr (), t')"
        "slots t' = (slots t)(obj := (slots t obj)(name := None))"
        "arrays t' = arrays t" "world.more t' = world.more t"
        "\<forall>q. q \<noteq> pid \<longrightarrow> paths t' q = paths t q"
        "removed E pid t'" "path_node (paths t' pid) = None"
        "pathCache t' =
               (pathCache t)(par \<mapsto>
                  filter (\<lambda>entry. fst entry \<noteq> path_node (paths t pid) \<and> fst entry \<noteq> None) m)"
      by blast
    have sl: "slots t' obj name = None
         \<and> (\<forall>obj' name'. (obj', name') \<noteq> (obj, name) \<longrightarrow>
               slots t' obj' name' = slots t obj' name')"
      using t'(2) by auto
    show "\<exists>t'. remove E pid s = (Inr (), t')
         \<and> slots t' obj name = None
         \<and> (\<forall>obj' name'. (obj', name') \<noteq> (obj, name) \<longrightarrow>
               slots t' obj' name' = slots t obj' name')
         \<and> arrays t' = arrays t \<and> world.more t' = world.more t
         \<and> (\<forall>q. q \<noteq> pid \<longrightarrow> paths t' q = paths t q)
         \<and> removed E pid t' \<and> path_node (paths t' pid) = None
         \<and> pathCache t' =
             (pathCache t)(par \<mapsto>
                filter (\<lambda>entry. fst entry \<noteq> path_node (paths t pid) \<and> fst entry \<noteq> None) m)"
      apply (rule exI [of _ t'])
      using t'(1) sl t'(3) t'(4) t'(5) t'(6) t'(7) t'(8)
      apply simp
      done
  }
qed

theorem remove_detaches_witness:
  "fst (remove plainRemovalEnv 12 exampleWorld) = Inr ()
   \<and> arrays (snd (remove plainRemovalEnv 12 exampleWorld)) 10 = [11, 13]
   \<and> path_key (paths (snd (remove plainRemovalEnv 12 exampleWorld)) 13) = NumberKey 1
   \<and> path_key (paths (snd (remove plainRemovalEnv 12 exampleWorld)) 11) = NumberKey 0
   \<and> removed plainRemovalEnv 12 (snd (remove plainRemovalEnv 12 exampleWorld))
   \<and> pathCache (snd (remove plainRemovalEnv 12 exampleWorld)) 10
       = Some [(Some 11, 11), (Some 13, 13)]
   \<and> fst (remove plainRemovalEnv 15 exampleWorld) = Inr ()
   \<and> slots (snd (remove plainRemovalEnv 15 exampleWorld)) 14 ''expression'' = None
   \<and> arrays (snd (remove plainRemovalEnv 15 exampleWorld)) 10 = [11, 12, 13]
   \<and> pathCache (snd (remove plainRemovalEnv 15 exampleWorld)) 14 = Some []"
proof -
  have par12: "path_parent (paths exampleWorld 12) = Some 10"
    by (simp add: example_paths statementPath_def)
  have arr: "path_container (paths exampleWorld 12) = Some (ArrayContainer 10)
     \<and> path_key (paths exampleWorld 12) = NumberKey 1 \<and> (0::int) \<le> 1
     \<and> 1 < int (length (arrays exampleWorld 10))"
    by (simp add: example_paths statementPath_def)
  note th = remove_detaches [OF example_prelude(1) example_prelude(3) par12 example_paths(6)
      example_prelude(4), of 10 1, THEN conjunct1, THEN mp, OF arr]
  have first: "fst (remove plainRemovalEnv 12 exampleWorld) = Inr ()
   \<and> arrays (snd (remove plainRemovalEnv 12 exampleWorld)) 10 = [11, 13]
   \<and> path_key (paths (snd (remove plainRemovalEnv 12 exampleWorld)) 13) = NumberKey 1
   \<and> path_key (paths (snd (remove plainRemovalEnv 12 exampleWorld)) 11) = NumberKey 0
   \<and> removed plainRemovalEnv 12 (snd (remove plainRemovalEnv 12 exampleWorld))
   \<and> pathCache (snd (remove plainRemovalEnv 12 exampleWorld)) 10
       = Some [(Some 11, 11), (Some 13, 13)]"
    using th
  proof (elim exE conjE)
    fix t'
    assume r: "remove plainRemovalEnv 12 exampleWorld = (Inr (), t')"
      and a: "arrays t' 10 = take (nat 1) (arrays exampleWorld 10)
                @ drop (nat 1 + 1) (arrays exampleWorld 10)"
      and s: "\<forall>q j. q \<noteq> 12 \<and> q \<in> set (cachedPaths exampleWorld 10)
                \<and> path_container (paths exampleWorld q) = Some (ArrayContainer 10)
                \<and> path_key (paths exampleWorld q) = NumberKey j \<longrightarrow>
                (1 < j \<longrightarrow> paths t' q = (paths exampleWorld q)\<lparr>path_key := NumberKey (j - 1)\<rparr>)
                \<and> (j < 1 \<longrightarrow> paths t' q = paths exampleWorld q)"
      and m: "removed plainRemovalEnv 12 t'"
      and c: "pathCache t' =
             (pathCache exampleWorld)(10 \<mapsto>
                filter (\<lambda>entry. fst entry \<noteq> path_node (paths exampleWorld 12))
                  [(Some 11, 11), (Some 12, 12), (Some 13, 13)])"
    have a1: "arrays t' 10 = [11, 13]"
      using a by (simp add: example_paths)
    have "paths t' 13 = (paths exampleWorld 13)\<lparr>path_key := NumberKey (2 - 1)\<rparr>"
      using s [rule_format, of 13 2] by (simp add: example_paths statementPath_def)
    then have a2: "path_key (paths t' 13) = NumberKey 1" by simp
    have "paths t' 11 = paths exampleWorld 11"
      using s [rule_format, of 11 0] by (simp add: example_paths statementPath_def)
    then have a3: "path_key (paths t' 11) = NumberKey 0"
      by (simp add: example_paths statementPath_def)
    have a4: "pathCache t' 10 = Some [(Some 11, 11), (Some 13, 13)]"
      using c by (simp add: example_paths statementPath_def)
    show ?thesis
      using r m a1 a2 a3 a4 by simp
  qed
  have par15: "path_parent (paths exampleWorld 15) = Some 14"
    by (simp add: example_paths expressionPath_def)
  have slot: "path_container (paths exampleWorld 15) = Some (ObjectContainer 14)
     \<and> path_key (paths exampleWorld 15) = StringKey ''expression''"
    by (simp add: example_paths expressionPath_def)
  note th2 = remove_detaches [OF example_prelude(2) example_prelude(3) par15 example_paths(7)
      example_prelude(4), of _ _ 14 "''expression''", THEN conjunct2, THEN mp, OF slot]
  have second: "fst (remove plainRemovalEnv 15 exampleWorld) = Inr ()
   \<and> slots (snd (remove plainRemovalEnv 15 exampleWorld)) 14 ''expression'' = None
   \<and> arrays (snd (remove plainRemovalEnv 15 exampleWorld)) 10 = [11, 12, 13]
   \<and> pathCache (snd (remove plainRemovalEnv 15 exampleWorld)) 14 = Some []"
    using th2
  proof (elim exE conjE)
    fix u'
    assume r: "remove plainRemovalEnv 15 exampleWorld = (Inr (), u')"
      and sl: "slots u' 14 ''expression'' = None"
      and ar: "arrays u' = arrays exampleWorld"
      and c: "pathCache u' =
             (pathCache exampleWorld)(14 \<mapsto>
                filter (\<lambda>entry. fst entry \<noteq> path_node (paths exampleWorld 15)
                                 \<and> fst entry \<noteq> None)
                  [(Some 15, 15)])"
    have b1: "pathCache u' 14 = Some []"
      using c by (simp add: example_paths expressionPath_def)
    have b2: "arrays u' 10 = [11, 12, 13]"
      using ar by (simp add: example_paths)
    show ?thesis
      using r sl b1 b2 by simp
  qed
  show ?thesis
    using first second by simp
qed

theorem remove_twice_rejected_witness:
  "REMOVED plainRemovalEnv \<noteq> 0
   \<and> fst (remove plainRemovalEnv 12 exampleWorld) = Inr ()
   \<and> remove plainRemovalEnv 12 (snd (remove plainRemovalEnv 12 exampleWorld))
       = (Inl (CodeFrameError ''NodePath has been removed so is read-only.''),
          snd (remove plainRemovalEnv 12 exampleWorld))"
proof -
  have par12: "path_parent (paths exampleWorld 12) = Some 10"
    by (simp add: example_paths statementPath_def)
  have c: "path_container (paths exampleWorld 12) = Some (ArrayContainer 10)"
    and k: "path_key (paths exampleWorld 12) = NumberKey 1"
    and k0: "(0::int) \<le> 1"
    and k1: "1 < int (length (arrays exampleWorld 10))"
    by (simp_all add: example_paths statementPath_def)
  note run = remove_unhandled [OF example_prelude(1) example_prelude(3)]
  from remove_array_case [OF run par12 example_paths(6) example_prelude(4) c k k0 k1]
  obtain t' where t': "remove plainRemovalEnv 12 exampleWorld = (Inr (), t')"
    by (elim exE conjE)
  from remove_twice_rejected [OF example_prelude(4) t'] t' show ?thesis
    using example_prelude(4) by simp
qed

end
